theory Spec2Isabelle
  imports Main
begin

section \<open>Python values\<close>

text \<open>
  A Python \<open>str\<close> is a sequence of Unicode code points, so it is modelled as a list of
  natural numbers (Isabelle's \<open>char\<close> has 8 bits only, and \<open>json.loads\<close> produces
  code points up to \<open>0x10FFFF\<close>).  \<open>py\<close> turns an ASCII literal into such a string.
\<close>

type_synonym pystr = "nat list"

definition py :: "string \<Rightarrow> pystr" where
  "py s = map of_char s"

text \<open>
  The values that \<open>request.json\<close> and \<open>json.loads\<close> produce.  A float is kept as the
  text of the number (its \<open>repr\<close>, or the literal that was parsed); a dict is an association
  list in insertion order whose keys are strings, as every JSON object has.
\<close>

datatype pyval =
    PyNone
  | PyBool bool
  | PyInt int
  | PyFloat pystr
  | PyStr pystr
  | PyList "pyval list"
  | PyDict "(pystr \<times> pyval) list"

datatype pyerror =
    TypeError
  | AttributeError
  | KeyError
  | ValueError pystr
  | JSONDecodeError
  | IntegrityError
  | NotFound
  | BadRequest
  | UnsupportedMediaType
  | UnicodeEncodeError
  | OverflowError
  | DBAPIError
  | OtherError pystr

subsection \<open>Truthiness, \<open>in\<close>, \<open>[]\<close> and \<open>.get\<close>\<close>

definition is_digit :: "nat \<Rightarrow> bool" where
  "is_digit c = (48 \<le> c \<and> c \<le> 57)"

text \<open>A float is zero when its mantissa has a digit and all its digits are \<open>0\<close>.\<close>

definition float_is_zero :: "pystr \<Rightarrow> bool" where
  "float_is_zero r =
     (let ds = filter is_digit (takeWhile (\<lambda>c. c \<noteq> 101 \<and> c \<noteq> 69) r)
      in ds \<noteq> [] \<and> list_all (\<lambda>d. d = 48) ds)"

fun truthy :: "pyval \<Rightarrow> bool" where
  "truthy PyNone = False"
| "truthy (PyBool b) = b"
| "truthy (PyInt i) = (i \<noteq> 0)"
| "truthy (PyFloat r) = (\<not> float_is_zero r)"
| "truthy (PyStr s) = (s \<noteq> [])"
| "truthy (PyList xs) = (xs \<noteq> [])"
| "truthy (PyDict kv) = (kv \<noteq> [])"

fun startswith :: "pystr \<Rightarrow> pystr \<Rightarrow> bool" where
  "startswith s [] = True"
| "startswith [] (p # ps) = False"
| "startswith (c # s) (p # ps) = (c = p \<and> startswith s ps)"

fun has_substring :: "pystr \<Rightarrow> pystr \<Rightarrow> bool" where
  "has_substring [] sub = (sub = [])"
| "has_substring (c # s) sub = (startswith (c # s) sub \<or> has_substring s sub)"

text \<open>\<open>key in x\<close> for a string \<open>key\<close>: membership of a key in a dict, of an element in a
  list, of a substring in a string; any other operand raises \<open>TypeError\<close>.\<close>

fun py_in :: "pystr \<Rightarrow> pyval \<Rightarrow> pyerror + bool" where
  "py_in k (PyDict kv) = Inr (k \<in> fst ` set kv)"
| "py_in k (PyList xs) = Inr (PyStr k \<in> set xs)"
| "py_in k (PyStr s) = Inr (has_substring s k)"
| "py_in k v = Inl TypeError"


text \<open>\<open>x.get(key, default)\<close>: only a dict has the method.\<close>

fun py_get :: "pyval \<Rightarrow> pystr \<Rightarrow> pyval \<Rightarrow> pyerror + pyval" where
  "py_get (PyDict kv) k d = Inr (case map_of kv k of None \<Rightarrow> d | Some v \<Rightarrow> v)"
| "py_get v k d = Inl AttributeError"

subsection \<open>String methods\<close>

text \<open>The code points for which \<open>str.isspace\<close> holds; \<open>strip()\<close> removes them at both ends.\<close>

definition isspace :: "nat \<Rightarrow> bool" where
  "isspace c =
     ((9 \<le> c \<and> c \<le> 13) \<or> (28 \<le> c \<and> c \<le> 32) \<or> c = 133 \<or> c = 160 \<or> c = 5760
      \<or> (8192 \<le> c \<and> c \<le> 8202) \<or> c = 8232 \<or> c = 8233 \<or> c = 8239 \<or> c = 8287
      \<or> c = 12288)"

definition strip :: "pystr \<Rightarrow> pystr" where
  "strip s = rev (dropWhile isspace (rev (dropWhile isspace s)))"

text \<open>\<open>s.split(sep)\<close> for a one-character separator: never an empty list.\<close>

fun split :: "nat \<Rightarrow> pystr \<Rightarrow> pystr list" where
  "split sep [] = [[]]"
| "split sep (c # s) =
     (if c = sep then [] # split sep s
      else (case split sep s of [] \<Rightarrow> [[c]] | x # xs \<Rightarrow> (c # x) # xs))"

fun join :: "pystr \<Rightarrow> pystr list \<Rightarrow> pystr" where
  "join sep [] = []"
| "join sep [x] = x"
| "join sep (x # y # ys) = x @ sep @ join sep (y # ys)"

subsection \<open>\<open>str()\<close> and \<open>repr()\<close>\<close>

fun digits :: "nat \<Rightarrow> pystr" where
  "digits n = (if n < 10 then [48 + n] else digits (n div 10) @ [48 + n mod 10])"

declare digits.simps [simp del]

definition str_int :: "int \<Rightarrow> pystr" where
  "str_int i = (if i < 0 then 45 # digits (nat (- i)) else digits (nat i))"

definition hexdigit :: "nat \<Rightarrow> nat" where
  "hexdigit d = (if d < 10 then 48 + d else 87 + d)"

fun hexn :: "nat \<Rightarrow> nat \<Rightarrow> pystr" where
  "hexn 0 n = []"
| "hexn (Suc k) n = hexn k (n div 16) @ [hexdigit (n mod 16)]"

text \<open>
  \<open>repr\<close> of a string picks the quote (double quotes only when the string has a single
  quote and no double quote) and escapes the quote, the backslash, control characters and
  the code points that are not printable.  Which code points above ASCII are printable is
  a table of the Unicode database: it is the parameter \<open>printable\<close>.
\<close>

definition repr_char :: "(nat \<Rightarrow> bool) \<Rightarrow> nat \<Rightarrow> nat \<Rightarrow> pystr" where
  "repr_char printable q c =
     (if c = q \<or> c = 92 then [92, c]
      else if c = 9 then [92, 116]
      else if c = 10 then [92, 110]
      else if c = 13 then [92, 114]
      else if c < 32 \<or> c = 127 then [92, 120] @ hexn 2 c
      else if c < 127 then [c]
      else if printable c then [c]
      else if c < 256 then [92, 120] @ hexn 2 c
      else if c < 65536 then [92, 117] @ hexn 4 c
      else [92, 85] @ hexn 8 c)"

definition repr_str :: "(nat \<Rightarrow> bool) \<Rightarrow> pystr \<Rightarrow> pystr" where
  "repr_str printable s =
     (let q = (if 39 \<in> set s \<and> 34 \<notin> set s then 34 else 39)
      in q # concat (map (repr_char printable q) s) @ [q])"

fun py_repr :: "(nat \<Rightarrow> bool) \<Rightarrow> pyval \<Rightarrow> pystr"
  and repr_items :: "(nat \<Rightarrow> bool) \<Rightarrow> pyval list \<Rightarrow> pystr list"
  and repr_pairs :: "(nat \<Rightarrow> bool) \<Rightarrow> (pystr \<times> pyval) list \<Rightarrow> pystr list"
where
  "py_repr p PyNone = py ''None''"
| "py_repr p (PyBool b) = (if b then py ''True'' else py ''False'')"
| "py_repr p (PyInt i) = str_int i"
| "py_repr p (PyFloat r) = r"
| "py_repr p (PyStr s) = repr_str p s"
| "py_repr p (PyList xs) = py ''['' @ join (py '', '') (repr_items p xs) @ py '']''"
| "py_repr p (PyDict kv) = py ''{'' @ join (py '', '') (repr_pairs p kv) @ py ''}''"
| "repr_items p [] = []"
| "repr_items p (x # xs) = py_repr p x # repr_items p xs"
| "repr_pairs p [] = []"
| "repr_pairs p ((k, v) # kv) = (repr_str p k @ py '': '' @ py_repr p v) # repr_pairs p kv"

text \<open>\<open>str(x)\<close>: a string is itself, everything else is its \<open>repr\<close>.\<close>

fun py_str :: "(nat \<Rightarrow> bool) \<Rightarrow> pyval \<Rightarrow> pystr" where
  "py_str p (PyStr s) = s"
| "py_str p v = py_repr p v"

section \<open>The \<open>json\<close> module\<close>

subsection \<open>\<open>json.dumps\<close> of a list of strings\<close>

text \<open>
  With the default \<open>ensure_ascii\<close>, every character outside \<open>' '..'~'\<close>, the quote and
  the backslash are escaped; a code point above \<open>0xFFFF\<close> becomes a surrogate pair
  (\<open>0xd800 | ((n >> 10) & 0x3ff)\<close> and \<open>0xdc00 | (n & 0x3ff)\<close> for \<open>n = c - 0x10000\<close>,
  written here with \<open>div\<close>, \<open>mod\<close> and \<open>+\<close>).  List items are separated by \<open>", "\<close>.
\<close>

definition escape_ascii :: "nat \<Rightarrow> pystr" where
  "escape_ascii c =
     (if c = 34 then [92, 34]
      else if c = 92 then [92, 92]
      else if c = 10 then [92, 110]
      else if c = 13 then [92, 114]
      else if c = 9 then [92, 116]
      else if c = 8 then [92, 98]
      else if c = 12 then [92, 102]
      else if 32 \<le> c \<and> c \<le> 126 then [c]
      else if c < 65536 then [92, 117] @ hexn 4 c
      else [92, 117] @ hexn 4 (55296 + ((c - 65536) div 1024) mod 1024)
           @ [92, 117] @ hexn 4 (56320 + (c - 65536) mod 1024))"

definition encode_basestring_ascii :: "pystr \<Rightarrow> pystr" where
  "encode_basestring_ascii s = 34 # concat (map escape_ascii s) @ [34]"

definition json_dumps :: "pystr list \<Rightarrow> pystr" where
  "json_dumps xs = py ''['' @ join (py '', '') (map encode_basestring_ascii xs) @ py '']''"

subsection \<open>\<open>json.loads\<close>\<close>

definition is_ws :: "nat \<Rightarrow> bool" where
  "is_ws c = (c = 32 \<or> c = 9 \<or> c = 10 \<or> c = 13)"

definition skip_ws :: "pystr \<Rightarrow> pystr" where
  "skip_ws s = dropWhile is_ws s"

definition unhex :: "nat \<Rightarrow> nat option" where
  "unhex c =
     (if 48 \<le> c \<and> c \<le> 57 then Some (c - 48)
      else if 97 \<le> c \<and> c \<le> 102 then Some (c - 87)
      else if 65 \<le> c \<and> c \<le> 70 then Some (c - 55)
      else None)"

definition hex4 :: "nat \<Rightarrow> nat \<Rightarrow> nat \<Rightarrow> nat \<Rightarrow> nat option" where
  "hex4 a b c d =
     (case (unhex a, unhex b, unhex c, unhex d) of
        (Some x, Some y, Some z, Some w) \<Rightarrow> Some (((x * 16 + y) * 16 + z) * 16 + w)
      | _ \<Rightarrow> None)"

text \<open>The table \<open>BACKSLASH\<close> of the decoder.\<close>

definition backslash :: "nat \<Rightarrow> nat option" where
  "backslash e =
     (if e = 34 then Some 34
      else if e = 92 then Some 92
      else if e = 47 then Some 47
      else if e = 98 then Some 8
      else if e = 102 then Some 12
      else if e = 110 then Some 10
      else if e = 114 then Some 13
      else if e = 116 then Some 9
      else None)"

definition cons_str :: "nat \<Rightarrow> (pystr \<times> pystr) option \<Rightarrow> (pystr \<times> pystr) option" where
  "cons_str ch res = (case res of None \<Rightarrow> None | Some (s, r) \<Rightarrow> Some (ch # s, r))"

text \<open>
  \<open>scanstring\<close> reads a string body, from after the opening quote, and returns the string
  and the text after the closing quote; \<open>None\<close> is \<open>JSONDecodeError\<close> (unterminated
  string, control character, invalid escape).  A high surrogate escape followed by a low
  surrogate escape is one code point.
\<close>

fun scanstring :: "pystr \<Rightarrow> (pystr \<times> pystr) option" where
  "scanstring [] = None"
| "scanstring (c # r) =
     (if c = 34 then Some ([], r)
      else if c < 32 then None
      else if c \<noteq> 92 then cons_str c (scanstring r)
      else (case r of
              [] \<Rightarrow> None
            | e # r1 \<Rightarrow>
                if e \<noteq> 117 then
                  (case backslash e of
                     None \<Rightarrow> None
                   | Some ch \<Rightarrow> cons_str ch (scanstring r1))
                else
                  (case r1 of
                     a # b # x # d # r2 \<Rightarrow>
                       (case hex4 a b x d of
                          None \<Rightarrow> None
                        | Some uni \<Rightarrow>
                            if 55296 \<le> uni \<and> uni \<le> 56319 \<and> startswith r2 [92, 117] then
                              (case r2 of
                                 b2 # u2 # a' # b' # x' # d' # r3 \<Rightarrow>
                                   (case hex4 a' b' x' d' of
                                      None \<Rightarrow> None
                                    | Some uni2 \<Rightarrow>
                                        if 56320 \<le> uni2 \<and> uni2 \<le> 57343
                                        then cons_str (65536 + ((uni - 55296) * 1024 + (uni2 - 56320)))
                                               (scanstring r3)
                                        else cons_str uni (scanstring r2))
                               | _ \<Rightarrow> None)
                            else cons_str uni (scanstring r2))
                   | _ \<Rightarrow> None)))"

text \<open>
  \<open>NUMBER_RE\<close> is \<open>(-?(?:0|[1-9][0-9]*))(\.[0-9]+)?([eE][-+]?[0-9]+)?\<close>: an integer when
  there is neither fraction nor exponent, a float otherwise.
\<close>

definition int_of_digits :: "pystr \<Rightarrow> int" where
  "int_of_digits ds = foldl (\<lambda>a d. a * 10 + int (d - 48)) 0 ds"

definition match_frac :: "pystr \<Rightarrow> pystr \<times> pystr" where
  "match_frac s =
     (case s of
        p # d # r \<Rightarrow>
          if p = 46 \<and> is_digit d
          then (p # d # takeWhile is_digit r, dropWhile is_digit r)
          else ([], s)
      | _ \<Rightarrow> ([], s))"

definition match_exp :: "pystr \<Rightarrow> pystr \<times> pystr" where
  "match_exp s =
     (case s of
        [] \<Rightarrow> ([], s)
      | e # r \<Rightarrow>
          if e = 101 \<or> e = 69 then
            (let (sg, r1) = (case r of
                               [] \<Rightarrow> ([], r)
                             | g # r' \<Rightarrow> if g = 43 \<or> g = 45 then ([g], r') else ([], r))
             in case r1 of
                  [] \<Rightarrow> ([], s)
                | d # r2 \<Rightarrow>
                    if is_digit d
                    then (e # sg @ d # takeWhile is_digit r2, dropWhile is_digit r2)
                    else ([], s))
          else ([], s))"

definition match_number :: "pystr \<Rightarrow> (pyval \<times> pystr) option" where
  "match_number s =
     (let (neg, s1) = (case s of
                         [] \<Rightarrow> (False, s)
                       | c # r \<Rightarrow> if c = 45 then (True, r) else (False, s))
      in case s1 of
           [] \<Rightarrow> None
         | c # r \<Rightarrow>
             if \<not> is_digit c then None
             else
               (let (ipart, s2) = (if c = 48 then ([c], r)
                                   else (c # takeWhile is_digit r, dropWhile is_digit r));
                    (frac, s3) = match_frac s2;
                    (ex, s4) = match_exp s3
                in if frac = [] \<and> ex = []
                   then Some (PyInt (if neg then - int_of_digits ipart else int_of_digits ipart), s4)
                   else Some (PyFloat ((if neg then [45] else []) @ ipart @ frac @ ex), s4)))"

text \<open>\<open>dict(pairs)\<close>: a repeated key keeps its first position and takes the last value.\<close>

fun dict_set :: "(pystr \<times> pyval) list \<Rightarrow> pystr \<Rightarrow> pyval \<Rightarrow> (pystr \<times> pyval) list" where
  "dict_set [] k v = [(k, v)]"
| "dict_set ((k', v') # kv) k v = (if k' = k then (k, v) # kv else (k', v') # dict_set kv k v)"

definition dict :: "(pystr \<times> pyval) list \<Rightarrow> (pystr \<times> pyval) list" where
  "dict pairs = foldl (\<lambda>d (k, v). dict_set d k v) [] pairs"

datatype 'a parse = OutOfFuel | Fail | Ok 'a pystr

text \<open>
  The scanner of the decoder: \<open>scan_once\<close> reads one value at the start of the text,
  \<open>JSONArray\<close> the items of an array from its first item, \<open>JSONObject\<close> the members of an
  object from after the opening quote of a key.  \<open>Fail\<close> is \<open>JSONDecodeError\<close>.  The
  recursion of the decoder is bounded by fuel, one unit for each value it enters and
  each item or member it reads; \<open>json_loads\<close> gives it twice the length of the text and
  one more.  The interpreter's own limits (recursion depth, digits of an integer) are not
  modelled.
\<close>

fun scan_once :: "nat \<Rightarrow> pystr \<Rightarrow> pyval parse"
  and JSONArray :: "nat \<Rightarrow> pystr \<Rightarrow> pyval list parse"
  and JSONObject :: "nat \<Rightarrow> pystr \<Rightarrow> (pystr \<times> pyval) list parse"
where
  "scan_once 0 s = OutOfFuel"
| "scan_once (Suc n) s =
     (case s of
        [] \<Rightarrow> Fail
      | c # r \<Rightarrow>
          if c = 34 then
            (case scanstring r of None \<Rightarrow> Fail | Some (x, r') \<Rightarrow> Ok (PyStr x) r')
          else if c = 123 then
            (case skip_ws r of
               [] \<Rightarrow> Fail
             | d # r' \<Rightarrow>
                 if d = 125 then Ok (PyDict []) r'
                 else if d = 34 then
                   (case JSONObject n r' of
                      OutOfFuel \<Rightarrow> OutOfFuel
                    | Fail \<Rightarrow> Fail
                    | Ok kv r'' \<Rightarrow> Ok (PyDict (dict kv)) r'')
                 else Fail)
          else if c = 91 then
            (case skip_ws r of
               [] \<Rightarrow> Fail
             | d # r' \<Rightarrow>
                 if d = 93 then Ok (PyList []) r'
                 else
                   (case JSONArray n (d # r') of
                      OutOfFuel \<Rightarrow> OutOfFuel
                    | Fail \<Rightarrow> Fail
                    | Ok vs r'' \<Rightarrow> Ok (PyList vs) r''))
          else if startswith s (py ''null'') then Ok PyNone (drop 4 s)
          else if startswith s (py ''true'') then Ok (PyBool True) (drop 4 s)
          else if startswith s (py ''false'') then Ok (PyBool False) (drop 5 s)
          else
            (case match_number s of
               Some (v, r') \<Rightarrow> Ok v r'
             | None \<Rightarrow>
                 if startswith s (py ''NaN'') then Ok (PyFloat (py ''nan'')) (drop 3 s)
                 else if startswith s (py ''Infinity'') then Ok (PyFloat (py ''inf'')) (drop 8 s)
                 else if startswith s (py ''-Infinity'') then Ok (PyFloat (py ''-inf'')) (drop 9 s)
                 else Fail))"
| "JSONArray 0 s = OutOfFuel"
| "JSONArray (Suc n) s =
     (case scan_once n s of
        OutOfFuel \<Rightarrow> OutOfFuel
      | Fail \<Rightarrow> Fail
      | Ok v r \<Rightarrow>
          (case skip_ws r of
             [] \<Rightarrow> Fail
           | d # r' \<Rightarrow>
               if d = 93 then Ok [v] r'
               else if d = 44 then
                 (case JSONArray n (skip_ws r') of
                    OutOfFuel \<Rightarrow> OutOfFuel
                  | Fail \<Rightarrow> Fail
                  | Ok vs r'' \<Rightarrow> Ok (v # vs) r'')
               else Fail))"
| "JSONObject 0 s = OutOfFuel"
| "JSONObject (Suc n) s =
     (case scanstring s of
        None \<Rightarrow> Fail
      | Some (key, r) \<Rightarrow>
          (case skip_ws r of
             [] \<Rightarrow> Fail
           | cl # r1 \<Rightarrow>
               if cl \<noteq> 58 then Fail
               else
                 (case scan_once n (skip_ws r1) of
                    OutOfFuel \<Rightarrow> OutOfFuel
                  | Fail \<Rightarrow> Fail
                  | Ok v r2 \<Rightarrow>
                      (case skip_ws r2 of
                         [] \<Rightarrow> Fail
                       | d # r3 \<Rightarrow>
                           if d = 125 then Ok [(key, v)] r3
                           else if d = 44 then
                             (case skip_ws r3 of
                                [] \<Rightarrow> Fail
                              | q # r4 \<Rightarrow>
                                  if q = 34 then
                                    (case JSONObject n r4 of
                                       OutOfFuel \<Rightarrow> OutOfFuel
                                     | Fail \<Rightarrow> Fail
                                     | Ok kv r5 \<Rightarrow> Ok ((key, v) # kv) r5)
                                  else Fail)
                           else Fail))))"

text \<open>
  \<open>json.loads(s)\<close>: a byte order mark is refused, white space is allowed around the one
  value, anything after it is "Extra data".  \<open>None\<close> is \<open>JSONDecodeError\<close>.
\<close>

definition json_loads :: "pystr \<Rightarrow> pyval option" where
  "json_loads s =
     (if startswith s [65279] then None
      else (case scan_once (2 * length s + 1) (skip_ws s) of
              Ok v r \<Rightarrow> if skip_ws r = [] then Some v else None
            | _ \<Rightarrow> None))"

section \<open>The \<open>re\<close> module\<close>

text \<open>
  \<open>re.search(r'\{.*\}', s, re.DOTALL)\<close>: the leftmost match starts at the first \<open>{\<close>, and
  the greedy \<open>.*\<close> (which matches newlines too) runs to the last \<open>}\<close> of the text.  There is
  a match, its \<open>group()\<close>, when a \<open>}\<close> follows the first \<open>{\<close>.
\<close>

definition re_search_braces :: "pystr \<Rightarrow> pystr option" where
  "re_search_braces s =
     (let t = dropWhile (\<lambda>c. c \<noteq> 123) s
      in if 125 \<in> set t then Some (rev (dropWhile (\<lambda>c. c \<noteq> 125) (rev t))) else None)"

text \<open>
  The same match, said without the functions of lists: \<open>m\<close> starts at the first \<open>{\<close> of
  the text and ends at its last \<open>}\<close>.
\<close>

definition greedy_span :: "pystr \<Rightarrow> pystr \<Rightarrow> bool" where
  "greedy_span r m =
     (\<exists>a mid b. r = a @ [123] @ mid @ [125] @ b \<and> 123 \<notin> set a \<and> 125 \<notin> set b
                \<and> m = [123] @ mid @ [125])"

section \<open>The note model (\<open>src/models/note.py\<close>)\<close>

text \<open>A \<open>datetime\<close> (naive, as \<open>datetime.utcnow()\<close> returns it) and its \<open>isoformat()\<close>.\<close>

record datetime =
  year :: nat
  month :: nat
  day :: nat
  hour :: nat
  minute :: nat
  second :: nat
  microsecond :: nat

definition zpad :: "nat \<Rightarrow> nat \<Rightarrow> pystr" where
  "zpad w n = replicate (w - length (digits n)) 48 @ digits n"

definition isoformat :: "datetime \<Rightarrow> pystr" where
  "isoformat t =
     zpad 4 (year t) @ py ''-'' @ zpad 2 (month t) @ py ''-'' @ zpad 2 (day t) @ py ''T''
     @ zpad 2 (hour t) @ py '':'' @ zpad 2 (minute t) @ py '':'' @ zpad 2 (second t)
     @ (if microsecond t \<noteq> 0 then py ''.'' @ zpad 6 (microsecond t) else [])"

text \<open>
  A \<open>Note\<close> object.  Its attributes \<open>title\<close>, \<open>content\<close>, \<open>event_date\<close> and \<open>event_time\<close> hold
  whatever Python value is assigned to them; \<open>tags\<close> is only ever assigned by
  \<open>set_tags_list\<close>, a text or \<open>None\<close>.
\<close>

record Note =
  note_id :: int
  title :: pyval
  content :: pyval
  tags :: "pystr option"
  event_date :: pyval
  event_time :: pyval
  created_at :: "datetime option"
  updated_at :: "datetime option"

definition get_tags_list :: "Note \<Rightarrow> pyval" where
  "get_tags_list self =
     (case tags self of
        None \<Rightarrow> PyList []
      | Some t \<Rightarrow>
          if t = [] then PyList []
          else (case json_loads t of
                  Some v \<Rightarrow> v
                | None \<Rightarrow> PyList (map PyStr (filter (\<lambda>x. x \<noteq> []) (map strip (split 44 t))))))"

text \<open>What \<open>for t in x\<close> runs over: the items of a list, the characters of a string, the
  keys of a dict; anything else is not iterable.\<close>

fun py_iter :: "pyval \<Rightarrow> pyerror + pyval list" where
  "py_iter (PyList xs) = Inr xs"
| "py_iter (PyStr s) = Inr (map (\<lambda>c. PyStr [c]) s)"
| "py_iter (PyDict kv) = Inr (map (\<lambda>(k, v). PyStr k) kv)"
| "py_iter v = Inl TypeError"

definition set_tags_list :: "(nat \<Rightarrow> bool) \<Rightarrow> Note \<Rightarrow> pyval \<Rightarrow> pyerror + Note" where
  "set_tags_list p self tags_list =
     (if \<not> truthy tags_list then Inr (self\<lparr>tags := None\<rparr>)
      else (case py_iter tags_list of
              Inl e \<Rightarrow> Inl e
            | Inr xs \<Rightarrow> Inr (self\<lparr>tags := Some (json_dumps (map (py_str p) xs))\<rparr>)))"

definition to_dict :: "Note \<Rightarrow> pyval" where
  "to_dict self =
     PyDict
       [(py ''id'', PyInt (note_id self)),
        (py ''title'', title self),
        (py ''content'', content self),
        (py ''tags'', get_tags_list self),
        (py ''event_date'', event_date self),
        (py ''event_time'', event_time self),
        (py ''created_at'',
           (case created_at self of None \<Rightarrow> PyNone | Some t \<Rightarrow> PyStr (isoformat t))),
        (py ''updated_at'',
           (case updated_at self of None \<Rightarrow> PyNone | Some t \<Rightarrow> PyStr (isoformat t)))]"

section \<open>The state: the table and the calls made to the completion service\<close>

text \<open>
  A row of the table.  The columns \<open>title\<close>, \<open>content\<close>, \<open>tags\<close>, \<open>event_date\<close> and
  \<open>event_time\<close> are text columns (\<open>String\<close>, \<open>Text\<close>), the first two \<open>nullable=False\<close>: a
  row holds a text in each, or \<open>NULL\<close> in a nullable one.  \<open>load\<close> gives the attributes of
  the object that the session builds from a row.
\<close>

record NoteRow =
  row_id :: int
  row_title :: pystr
  row_content :: pystr
  row_tags :: "pystr option"
  row_event_date :: "pystr option"
  row_event_time :: "pystr option"
  row_created_at :: "datetime option"
  row_updated_at :: "datetime option"

definition text_value :: "pystr option \<Rightarrow> pyval" where
  "text_value x = (case x of None \<Rightarrow> PyNone | Some s \<Rightarrow> PyStr s)"

definition load :: "NoteRow \<Rightarrow> Note" where
  "load r =
     \<lparr>note_id = row_id r, title = PyStr (row_title r), content = PyStr (row_content r),
      tags = row_tags r, event_date = text_value (row_event_date r),
      event_time = text_value (row_event_time r),
      created_at = row_created_at r, updated_at = row_updated_at r\<rparr>"

record world =
  rows :: "NoteRow list"
  calls :: "pyval list"

definition query_get :: "world \<Rightarrow> int \<Rightarrow> NoteRow option" where
  "query_get w nid = find (\<lambda>r. row_id r = nid) (rows w)"

text \<open>
  What the storage engine (SQLite, through its Python driver) makes of a Python value
  bound to a text column: \<open>None\<close> is \<open>NULL\<close>; a string is stored as it is, unless it holds
  a surrogate code point, which cannot be encoded; a number is stored as its text (a
  boolean as \<open>1\<close> or \<open>0\<close>, an integer outside 64 bits is refused, the text of a float is the
  engine's, and is the parameter \<open>float_text\<close>: \<open>None\<close> for a NaN, which is stored as
  \<open>NULL\<close>); a list or a dict is refused by the driver.
\<close>

definition is_surrogate :: "nat \<Rightarrow> bool" where
  "is_surrogate c = (55296 \<le> c \<and> c \<le> 57343)"

fun bind_text :: "(pystr \<Rightarrow> pystr option) \<Rightarrow> pyval \<Rightarrow> pyerror + pystr option" where
  "bind_text float_text PyNone = Inr None"
| "bind_text float_text (PyBool b) = Inr (Some (if b then py ''1'' else py ''0''))"
| "bind_text float_text (PyInt i) =
     (if - 9223372036854775808 \<le> i \<and> i \<le> 9223372036854775807 then Inr (Some (str_int i))
      else Inl OverflowError)"
| "bind_text float_text (PyFloat r) = Inr (float_text r)"
| "bind_text float_text (PyStr s) =
     (if list_ex is_surrogate s then Inl UnicodeEncodeError else Inr (Some s))"
| "bind_text float_text (PyList xs) = Inl DBAPIError"
| "bind_text float_text (PyDict kv) = Inl DBAPIError"

text \<open>
  \<open>db.session.commit()\<close> after the attributes of a loaded row were assigned.  The unit of
  work compares each attribute with the loaded value.  When none differs there is no
  write, and \<open>updated_at\<close> stays.  Otherwise one \<open>UPDATE\<close> sets the attributes that differ,
  bound in the order of the columns (\<open>bind_attr\<close>: an attribute that does not differ is not
  in the statement), and \<open>updated_at\<close>, which \<open>onupdate=datetime.utcnow\<close> computes; it
  fails when a \<open>nullable=False\<close> column would be \<open>NULL\<close>.
\<close>

definition bind_attr ::
  "(pystr \<Rightarrow> pystr option) \<Rightarrow> pyval \<Rightarrow> pystr option \<Rightarrow> pyerror + pystr option" where
  "bind_attr float_text v loaded =
     (if v = text_value loaded then Inr loaded else bind_text float_text v)"

definition commit_update ::
  "(pystr \<Rightarrow> pystr option) \<Rightarrow> world \<Rightarrow> NoteRow \<Rightarrow> Note \<Rightarrow> datetime
     \<Rightarrow> pyerror + (NoteRow \<times> world)" where
  "commit_update float_text w old note now =
     (if note = load old then Inr (old, w)
      else
     (case bind_attr float_text (title note) (Some (row_title old)) of
        Inl e \<Rightarrow> Inl e | Inr t \<Rightarrow>
     (case bind_attr float_text (content note) (Some (row_content old)) of
        Inl e \<Rightarrow> Inl e | Inr c \<Rightarrow>
     (case bind_attr float_text (event_date note) (row_event_date old) of
        Inl e \<Rightarrow> Inl e | Inr ed \<Rightarrow>
     (case bind_attr float_text (event_time note) (row_event_time old) of
        Inl e \<Rightarrow> Inl e | Inr et \<Rightarrow>
     (case (t, c) of
        (Some t', Some c') \<Rightarrow>
          (let row = old\<lparr>row_title := t', row_content := c', row_tags := tags note,
                         row_event_date := ed, row_event_time := et,
                         row_updated_at := Some now\<rparr>
           in Inr (row, w\<lparr>rows := map (\<lambda>r. if row_id r = row_id old then row else r)
                                       (rows w)\<rparr>))
      | _ \<Rightarrow> Inl IntegrityError))))))"


section \<open>The completion client (\<open>src/llm.py\<close>)\<close>

text \<open>
  \<open>call_llm_model\<close> sends one chat completion request and returns the text of the first
  choice, or raises.  The service is the parameter \<open>service\<close>, from the request to its
  answer; every request is recorded in \<open>calls\<close>.
\<close>

definition model :: pystr where
  "model = py ''openai/gpt-4.1-mini''"

definition call_llm_model ::
  "(pyval \<Rightarrow> pyerror + pyval) \<Rightarrow> world \<Rightarrow> pystr \<Rightarrow> pyval \<Rightarrow> (pyerror + pyval) \<times> world" where
  "call_llm_model service w mdl messages =
     (let req = PyDict [(py ''messages'', messages),
                        (py ''temperature'', PyFloat (py ''1.0'')),
                        (py ''top_p'', PyFloat (py ''1.0'')),
                        (py ''model'', PyStr mdl)]
      in (service req, w\<lparr>calls := calls w @ [req]\<rparr>))"

definition translate ::
  "(pyval \<Rightarrow> pyerror + pyval) \<Rightarrow> world \<Rightarrow> pystr \<Rightarrow> pyval \<Rightarrow> (pyerror + pyval) \<times> world" where
  "translate service w language text =
     call_llm_model service w model
       (PyList
          [PyDict [(py ''role'', PyStr (py ''system'')),
                   (py ''content'',
                      PyStr (py ''Translate the following text to '' @ language @ py ''.''))],
           PyDict [(py ''role'', PyStr (py ''user'')), (py ''content'', text)]])"

section \<open>The request handlers (\<open>src/routes/note.py\<close>)\<close>

text \<open>
  A handler takes the state and the request and returns the response with the new
  state.  \<open>request.json\<close> parses the body: it returns a Python value (\<open>PyNone\<close> for the
  body \<open>null\<close>), or raises, \<open>UnsupportedMediaType\<close> when the request does not announce a
  JSON body (a request without a body is such a request) and \<open>BadRequest\<close> when the body
  is not JSON.  In \<open>create_note\<close> and \<open>update_note\<close> it is read inside the \<open>try\<close>, and the
  request is the parameter \<open>req\<close>, \<open>Inr\<close> the value or \<open>Inl\<close> the exception.  In
  \<open>translate_note\<close> and \<open>generate_note\<close> it is read outside any \<open>try\<close>, so that an
  exception leaves the handler at once: these two are modelled from the value
  \<open>req_json\<close> it returns.  A
  response is a status with a body: \<open>Json v\<close> is \<open>jsonify(v)\<close>, \<open>ErrorOf e\<close> is
  \<open>jsonify({'error': str(e)})\<close>, \<open>FailedToGenerate e\<close> is
  \<open>jsonify({'error': f'Failed to generate note: {str(e)}'})\<close>, and \<open>ErrorPage\<close> is the page
  that \<open>abort\<close> sends.  \<open>Unhandled e\<close> is an exception that leaves the handler.
\<close>

datatype body = Json pyval | ErrorOf pyerror | FailedToGenerate pyerror | ErrorPage

datatype response = Response nat body | Unhandled pyerror

definition error_json :: "pystr \<Rightarrow> body" where
  "error_json msg = Json (PyDict [(py ''error'', PyStr msg)])"

text \<open>\<open>x or d\<close>.\<close>

definition py_or :: "pyval \<Rightarrow> pyval \<Rightarrow> pyval" where
  "py_or x d = (if truthy x then x else d)"

subsection \<open>\<open>create_note\<close>\<close>



subsection \<open>\<open>update_note\<close>\<close>

text \<open>
  \<open>get_or_404\<close> and \<open>request.json\<close> are inside the \<open>try\<close>, in this order, so the exception
  either raises is caught below.
\<close>

definition update_note_try ::
  "(nat \<Rightarrow> bool) \<Rightarrow> (pystr \<Rightarrow> pystr option) \<Rightarrow> world \<Rightarrow> int \<Rightarrow> pyerror + pyval
     \<Rightarrow> datetime \<Rightarrow> pyerror + (response \<times> world)" where
  "update_note_try p float_text w nid req now =
     (case query_get w nid of None \<Rightarrow> Inl NotFound | Some row \<Rightarrow>
     (case req of Inl e \<Rightarrow> Inl e | Inr data \<Rightarrow>
      let note = load row in
      if \<not> truthy data then Inr (Response 400 (error_json (py ''No data provided'')), w)
      else
     (case py_get data (py ''title'') (title note) of Inl e \<Rightarrow> Inl e | Inr t \<Rightarrow>
     (case py_get data (py ''content'') (content note) of Inl e \<Rightarrow> Inl e | Inr c \<Rightarrow>
      let note1 = note\<lparr>title := t, content := c\<rparr> in
     (case py_in (py ''tags'') data of Inl e \<Rightarrow> Inl e | Inr has_tags \<Rightarrow>
     (case (if has_tags
            then (case py_get data (py ''tags'') PyNone of
                    Inl e \<Rightarrow> Inl e
                  | Inr tgs \<Rightarrow> set_tags_list p note1 tgs)
            else Inr note1) of
        Inl e \<Rightarrow> Inl e | Inr note2 \<Rightarrow>
     (case py_in (py ''event_date'') data of Inl e \<Rightarrow> Inl e | Inr has_date \<Rightarrow>
     (case (if has_date
            then (case py_get data (py ''event_date'') PyNone of
                    Inl e \<Rightarrow> Inl e
                  | Inr ed \<Rightarrow> Inr (note2\<lparr>event_date := ed\<rparr>))
            else Inr note2) of
        Inl e \<Rightarrow> Inl e | Inr note3 \<Rightarrow>
     (case py_in (py ''event_time'') data of Inl e \<Rightarrow> Inl e | Inr has_time \<Rightarrow>
     (case (if has_time
            then (case py_get data (py ''event_time'') PyNone of
                    Inl e \<Rightarrow> Inl e
                  | Inr et \<Rightarrow> Inr (note3\<lparr>event_time := et\<rparr>))
            else Inr note3) of
        Inl e \<Rightarrow> Inl e | Inr note4 \<Rightarrow>
     (case commit_update float_text w row note4 now of
        Inl e \<Rightarrow> Inl e
      | Inr (row', w') \<Rightarrow> Inr (Response 200 (Json (to_dict (load row'))), w'))))))))))))"

definition update_note ::
  "(nat \<Rightarrow> bool) \<Rightarrow> (pystr \<Rightarrow> pystr option) \<Rightarrow> world \<Rightarrow> int \<Rightarrow> pyerror + pyval
     \<Rightarrow> datetime \<Rightarrow> response \<times> world" where
  "update_note p float_text w nid req now =
     (case update_note_try p float_text w nid req now of
        Inl e \<Rightarrow> (Response 500 (ErrorOf e), w)
      | Inr res \<Rightarrow> res)"

subsection \<open>\<open>search_notes\<close>\<close>

text \<open>
  \<open>q\<close> is \<open>request.args.get('q', '')\<close> (\<open>None\<close> when the parameter is absent).  The query
  itself, a filter on three columns and an order, is run by the storage engine: it is the
  parameter \<open>run_query\<close>.
\<close>

definition search_notes ::
  "(pystr \<Rightarrow> NoteRow list \<Rightarrow> NoteRow list) \<Rightarrow> world \<Rightarrow> pystr option
     \<Rightarrow> response \<times> world" where
  "search_notes run_query w q =
     (let query = (case q of None \<Rightarrow> [] | Some x \<Rightarrow> x)
      in if query = [] then (Response 200 (Json (PyList [])), w)
         else (Response 200
                 (Json (PyList (map (\<lambda>r. to_dict (load r)) (run_query query (rows w))))), w))"

subsection \<open>\<open>translate_note\<close>\<close>

definition allowed :: "pystr set" where
  "allowed = {py ''Chinese'', py ''English'', py ''Japanese''}"

text \<open>The message with \<open>sorted(list(allowed))\<close> formatted into it (39 is the single quote).\<close>

definition unsupported_language :: body where
  "unsupported_language =
     error_json (py ''Unsupported language. Allowed: ['' @ [39] @ py ''Chinese'' @ [39]
                 @ py '', '' @ [39] @ py ''English'' @ [39] @ py '', '' @ [39] @ py ''Japanese''
                 @ [39] @ py '']'')"

text \<open>
  \<open>get_or_404\<close> is outside the \<open>try\<close> here, so a missing note is a 404.
  \<open>language not in allowed\<close> hashes \<open>language\<close>: a list or a dict raises \<open>TypeError\<close>,
  outside the \<open>try\<close>; any other value that is not one of the three strings is refused.
\<close>

definition translate_note ::
  "(pyval \<Rightarrow> pyerror + pyval) \<Rightarrow> world \<Rightarrow> int \<Rightarrow> pyval \<Rightarrow> response \<times> world" where
  "translate_note service w nid req_json =
     (case query_get w nid of None \<Rightarrow> (Response 404 ErrorPage, w) | Some row \<Rightarrow>
      let note = load row;
          data = py_or req_json (PyDict []) in
     (case py_get data (py ''language'') PyNone of Inl e \<Rightarrow> (Unhandled e, w) | Inr language \<Rightarrow>
     (case language of
        PyList xs \<Rightarrow> (Unhandled TypeError, w)
      | PyDict kv \<Rightarrow> (Unhandled TypeError, w)
      | PyStr l \<Rightarrow>
          if l \<notin> allowed then (Response 400 unsupported_language, w)
          else
            (case translate service w l (py_or (title note) (PyStr [])) of
               (Inl e, w1) \<Rightarrow> (Response 500 (ErrorOf e), w1)
             | (Inr translated_title, w1) \<Rightarrow>
                 (case translate service w1 l (py_or (content note) (PyStr [])) of
                    (Inl e, w2) \<Rightarrow> (Response 500 (ErrorOf e), w2)
                  | (Inr translated_content, w2) \<Rightarrow>
                      (Response 200 (Json (PyDict [(py ''id'', PyInt (note_id note)),
                                                   (py ''title'', translated_title),
                                                   (py ''content'', translated_content)])), w2)))
      | _ \<Rightarrow> (Response 400 unsupported_language, w))))"

subsection \<open>\<open>generate_note\<close>\<close>

text \<open>
  Lines 151 to 160: parse the whole response; when that raises \<open>JSONDecodeError\<close>, parse
  the match of the regular expression (a \<open>JSONDecodeError\<close> there is not caught by the
  inner handler), or raise \<open>ValueError\<close> when there is no match.
\<close>

definition parse_response :: "pystr \<Rightarrow> pyerror + pyval" where
  "parse_response response_content =
     (case json_loads response_content of
        Some note_data \<Rightarrow> Inr note_data
      | None \<Rightarrow>
          (case re_search_braces response_content of
             Some json_match \<Rightarrow>
               (case json_loads json_match of
                  Some note_data \<Rightarrow> Inr note_data
                | None \<Rightarrow> Inl JSONDecodeError)
           | None \<Rightarrow> Inl (ValueError (py ''Could not parse JSON from LLM response''))))"

text \<open>
  The body of the \<open>try\<close>, after the response of the completion client.  \<open>json.loads\<close> of a
  value that is not a string raises \<open>TypeError\<close>.
\<close>

definition generate_note_try :: "pystr \<Rightarrow> pyval \<Rightarrow> pyerror + response" where
  "generate_note_try user_input response_content =
     (case response_content of
        PyStr r \<Rightarrow>
          (case parse_response r of Inl e \<Rightarrow> Inl e | Inr note_data \<Rightarrow>
           let missing = Response 500 (error_json (py ''Generated note is missing required fields''))
           in
          (case py_in (py ''Title'') note_data of Inl e \<Rightarrow> Inl e | Inr has_title \<Rightarrow>
           if \<not> has_title then Inr missing else
          (case py_in (py ''Notes'') note_data of Inl e \<Rightarrow> Inl e | Inr has_notes \<Rightarrow>
           if \<not> has_notes then Inr missing else
          (case py_get note_data (py ''Title'') (PyStr []) of Inl e \<Rightarrow> Inl e | Inr t \<Rightarrow>
          (case py_get note_data (py ''Notes'') (PyStr []) of Inl e \<Rightarrow> Inl e | Inr c \<Rightarrow>
          (case py_get note_data (py ''Tags'') (PyList []) of Inl e \<Rightarrow> Inl e | Inr g \<Rightarrow>
             Inr (Response 200 (Json (PyDict [(py ''title'', t),
                                             (py ''content'', c),
                                             (py ''tags'', g),
                                             (py ''original_input'', PyStr user_input)])))))))))
      | _ \<Rightarrow> Inl TypeError)"

text \<open>
  \<open>llm.process_user_notes\<close> is called by the handler and is not defined in \<open>src/llm.py\<close>:
  it is the parameter \<open>process_user_notes\<close>, from the language and the input to the text
  of the completion, or to the exception it raises.  \<open>.strip()\<close> on an \<open>input\<close> that is not
  a string raises \<open>AttributeError\<close>, outside the \<open>try\<close>.
\<close>

definition generate_note ::
  "(pystr \<Rightarrow> pystr \<Rightarrow> pyerror + pyval) \<Rightarrow> world \<Rightarrow> pyval \<Rightarrow> response \<times> world" where
  "generate_note process_user_notes w req_json =
     (let data = py_or req_json (PyDict []) in
      case py_get data (py ''input'') (PyStr []) of Inl e \<Rightarrow> (Unhandled e, w) | Inr inp \<Rightarrow>
     (case inp of
        PyStr s \<Rightarrow>
          (let user_input = strip s in
           case py_get data (py ''language'') (PyStr (py ''English'')) of
             Inl e \<Rightarrow> (Unhandled e, w)
           | Inr language \<Rightarrow>
               if user_input = [] then (Response 400 (error_json (py ''Input text is required'')), w)
               else
                 (case language of
                    PyList xs \<Rightarrow> (Unhandled TypeError, w)
                  | PyDict kv \<Rightarrow> (Unhandled TypeError, w)
                  | PyStr l \<Rightarrow>
                      if l \<notin> allowed then (Response 400 unsupported_language, w)
                      else
                        (case process_user_notes l user_input of
                           Inl e \<Rightarrow> (Response 500 (FailedToGenerate e), w)
                         | Inr response_content \<Rightarrow>
                             (case generate_note_try user_input response_content of
                                Inl e \<Rightarrow> (Response 500 (FailedToGenerate e), w)
                              | Inr res \<Rightarrow> (res, w)))
                  | _ \<Rightarrow> (Response 400 unsupported_language, w)))
      | _ \<Rightarrow> (Unhandled AttributeError, w)))"

section \<open>The parsing protocol as the specification words it\<close>

text \<open>
  The specification describes the second attempt of \<open>generate\<close> as locating "the first
  balanced object-like substring within the text".  \<open>spec_first_balanced\<close> follows those
  words, to be compared with \<open>re_search_braces\<close>: the text from the first \<open>{\<close> whose braces
  close, up to the \<open>}\<close> that closes it.  \<open>close_at d s\<close> reads \<open>s\<close> with \<open>d\<close> further braces
  open.
\<close>

fun close_at :: "nat \<Rightarrow> pystr \<Rightarrow> pystr option" where
  "close_at d [] = None"
| "close_at d (c # s) =
     (if c = 125 then
        (case d of
           0 \<Rightarrow> Some [c]
         | Suc d' \<Rightarrow> (case close_at d' s of None \<Rightarrow> None | Some m \<Rightarrow> Some (c # m)))
      else if c = 123 then
        (case close_at (Suc d) s of None \<Rightarrow> None | Some m \<Rightarrow> Some (c # m))
      else (case close_at d s of None \<Rightarrow> None | Some m \<Rightarrow> Some (c # m)))"

fun spec_first_balanced :: "pystr \<Rightarrow> pystr option" where
  "spec_first_balanced [] = None"
| "spec_first_balanced (c # s) =
     (if c = 123 then
        (case close_at 0 s of
           Some m \<Rightarrow> Some (c # m)
         | None \<Rightarrow> spec_first_balanced s)
      else spec_first_balanced s)"

section \<open>Concrete states and requests\<close>

text \<open>A state with one note, used where a property is instantiated.\<close>

definition example_time :: datetime where
  "example_time =
     \<lparr>year = 2024, month = 1, day = 2, hour = 3, minute = 4, second = 5, microsecond = 0\<rparr>"

definition later_time :: datetime where
  "later_time =
     \<lparr>year = 2024, month = 1, day = 2, hour = 3, minute = 4, second = 6, microsecond = 0\<rparr>"

definition example_note :: NoteRow where
  "example_note =
     \<lparr>row_id = 1, row_title = py ''T'', row_content = py ''C'', row_tags = None,
      row_event_date = None, row_event_time = None,
      row_created_at = Some example_time, row_updated_at = Some example_time\<rparr>"

definition example_world :: world where
  "example_world = \<lparr>rows = [example_note], calls = []\<rparr>"

text \<open>The same note with a tag.\<close>

definition tagged_note :: NoteRow where
  "tagged_note = example_note\<lparr>row_tags := Some (py ''[\"a\"]'')\<rparr>"

definition tagged_world :: world where
  "tagged_world = \<lparr>rows = [tagged_note], calls = []\<rparr>"

text \<open>
  The example of the specification: an input, and the completion a stub returns for it.
  \<open>two_objects\<close> is a completion with a second object after the note; \<open>prose_wrapped\<close> is
  a completion with prose around the note.
\<close>

definition example_input :: pystr where
  "example_input = py ''Meeting with Bob tomorrow at 3pm, tag it work''"

definition example_completion :: pystr where
  "example_completion =
     py ''{\"Title\":\"Meeting with Bob\",\"Notes\":\"...\",\"Tags\":[\"work\"]}''"

definition two_objects :: pystr where
  "two_objects = py ''{\"Title\":\"a\",\"Notes\":\"b\"} {}''"

definition prose_wrapped :: pystr where
  "prose_wrapped = py ''Here you go: {\"Title\":\"a\",\"Notes\":\"b\"} Enjoy!''"

section \<open>Properties of the handlers\<close>

lemma example_query_get: "query_get example_world 1 = Some example_note"
  by (simp add: query_get_def example_world_def example_note_def)

lemma tagged_query_get: "query_get tagged_world 1 = Some tagged_note"
  by (simp add: query_get_def tagged_world_def tagged_note_def example_note_def)

subsection \<open>Evaluating the decoder on a concrete text\<close>

text \<open>
  One rewrite rule for each step of the scanner, so that the simplifier runs the decoder on
  a literal text without unfolding the whole of \<open>scan_once\<close> at every character.
\<close>

lemma scanstring_quote: "scanstring (34 # r) = Some ([], r)"
  by simp

lemma scanstring_plain:
  "32 \<le> c \<Longrightarrow> c \<noteq> 34 \<Longrightarrow> c \<noteq> 92 \<Longrightarrow> scanstring (c # r) = cons_str c (scanstring r)"
  by simp

lemma cons_str_Some: "cons_str c (Some (s, r)) = Some (c # s, r)"
  by (simp add: cons_str_def)

lemma cons_str_None: "cons_str c None = None"
  by (simp add: cons_str_def)

lemma scan_once_string:
  "scan_once (numeral k) (34 # r)
     = (case scanstring r of None \<Rightarrow> Fail | Some (x, r') \<Rightarrow> Ok (PyStr x) r')"
  unfolding numeral_eq_Suc [of k] by simp

lemma scan_once_object:
  "scan_once (numeral k) (123 # r) =
     (case skip_ws r of
        [] \<Rightarrow> Fail
      | d # r' \<Rightarrow>
          if d = 125 then Ok (PyDict []) r'
          else if d = 34 then
            (case JSONObject (pred_numeral k) r' of
               OutOfFuel \<Rightarrow> OutOfFuel
             | Fail \<Rightarrow> Fail
             | Ok kv r'' \<Rightarrow> Ok (PyDict (dict kv)) r'')
          else Fail)"
  unfolding numeral_eq_Suc [of k] by simp

lemma scan_once_array:
  "scan_once (numeral k) (91 # r) =
     (case skip_ws r of
        [] \<Rightarrow> Fail
      | d # r' \<Rightarrow>
          if d = 93 then Ok (PyList []) r'
          else
            (case JSONArray (pred_numeral k) (d # r') of
               OutOfFuel \<Rightarrow> OutOfFuel
             | Fail \<Rightarrow> Fail
             | Ok vs r'' \<Rightarrow> Ok (PyList vs) r''))"
  unfolding numeral_eq_Suc [of k] by simp

lemma scan_once_other:
  "c \<noteq> 34 \<Longrightarrow> c \<noteq> 123 \<Longrightarrow> c \<noteq> 91 \<Longrightarrow>
   scan_once (numeral k) (c # r) =
     (if startswith (c # r) (py ''null'') then Ok PyNone (drop 4 (c # r))
      else if startswith (c # r) (py ''true'') then Ok (PyBool True) (drop 4 (c # r))
      else if startswith (c # r) (py ''false'') then Ok (PyBool False) (drop 5 (c # r))
      else
        (case match_number (c # r) of
           Some (v, r') \<Rightarrow> Ok v r'
         | None \<Rightarrow>
             if startswith (c # r) (py ''NaN'') then Ok (PyFloat (py ''nan'')) (drop 3 (c # r))
             else if startswith (c # r) (py ''Infinity'') then Ok (PyFloat (py ''inf'')) (drop 8 (c # r))
             else if startswith (c # r) (py ''-Infinity'') then Ok (PyFloat (py ''-inf'')) (drop 9 (c # r))
             else Fail))"
  unfolding numeral_eq_Suc [of k] by simp

lemma scan_once_Nil: "scan_once (numeral k) [] = Fail"
  unfolding numeral_eq_Suc [of k] by simp

lemma JSONArray_step:
  "JSONArray (numeral k) s =
     (case scan_once (pred_numeral k) s of
        OutOfFuel \<Rightarrow> OutOfFuel
      | Fail \<Rightarrow> Fail
      | Ok v r \<Rightarrow>
          (case skip_ws r of
             [] \<Rightarrow> Fail
           | d # r' \<Rightarrow>
               if d = 93 then Ok [v] r'
               else if d = 44 then
                 (case JSONArray (pred_numeral k) (skip_ws r') of
                    OutOfFuel \<Rightarrow> OutOfFuel
                  | Fail \<Rightarrow> Fail
                  | Ok vs r'' \<Rightarrow> Ok (v # vs) r'')
               else Fail))"
  unfolding numeral_eq_Suc [of k] by simp

lemma JSONObject_step:
  "JSONObject (numeral k) s =
     (case scanstring s of
        None \<Rightarrow> Fail
      | Some (key, r) \<Rightarrow>
          (case skip_ws r of
             [] \<Rightarrow> Fail
           | cl # r1 \<Rightarrow>
               if cl \<noteq> 58 then Fail
               else
                 (case scan_once (pred_numeral k) (skip_ws r1) of
                    OutOfFuel \<Rightarrow> OutOfFuel
                  | Fail \<Rightarrow> Fail
                  | Ok v r2 \<Rightarrow>
                      (case skip_ws r2 of
                         [] \<Rightarrow> Fail
                       | d # r3 \<Rightarrow>
                           if d = 125 then Ok [(key, v)] r3
                           else if d = 44 then
                             (case skip_ws r3 of
                                [] \<Rightarrow> Fail
                              | q # r4 \<Rightarrow>
                                  if q = 34 then
                                    (case JSONObject (pred_numeral k) r4 of
                                       OutOfFuel \<Rightarrow> OutOfFuel
                                     | Fail \<Rightarrow> Fail
                                     | Ok kv r5 \<Rightarrow> Ok ((key, v) # kv) r5)
                                  else Fail)
                           else Fail))))"
  unfolding numeral_eq_Suc [of k] by simp

lemmas json_eval = json_loads_def skip_ws_def is_ws_def cons_str_Some cons_str_None
  scanstring_quote scanstring_plain scan_once_string scan_once_object scan_once_array
  scan_once_other scan_once_Nil JSONArray_step JSONObject_step
  match_number_def match_frac_def match_exp_def is_digit_def int_of_digits_def
  dict_def py_def

declare scanstring.simps [simp del] scan_once.simps [simp del] JSONArray.simps [simp del]
  JSONObject.simps [simp del]

subsection \<open>The regular expression\<close>

text \<open>\<open>re_search_braces\<close> finds exactly the span from the first \<open>{\<close> to the last \<open>}\<close>.\<close>

lemma dropWhile_neq_first:
  "x \<notin> set ys \<Longrightarrow> dropWhile (\<lambda>c. c \<noteq> x) (ys @ x # zs) = x # zs"
  by (induction ys) auto

lemma dropWhile_rev_last:
  assumes "x \<in> set t"
  shows "\<exists>u b. t = u @ [x] @ b \<and> x \<notin> set b \<and> rev (dropWhile (\<lambda>c. c \<noteq> x) (rev t)) = u @ [x]"
proof -
  from assms have "x \<in> set (rev t)" by simp
  then obtain ys zs where s: "rev t = ys @ x # zs" and n: "x \<notin> set ys"
    by (meson split_list_first)
  have d: "dropWhile (\<lambda>c. c \<noteq> x) (rev t) = x # zs"
    by (simp only: s dropWhile_neq_first [OF n])
  have "rev (rev t) = rev (ys @ x # zs)" by (simp only: s)
  then have t: "t = rev zs @ [x] @ rev ys" by simp
  have "rev (dropWhile (\<lambda>c. c \<noteq> x) (rev t)) = rev zs @ [x]" by (simp only: d) simp
  with t n show ?thesis by force
qed

lemma re_search_braces_Some:
  assumes "re_search_braces r = Some m"
  shows "greedy_span r m"
proof -
  define t where "t = dropWhile (\<lambda>c. c \<noteq> 123) r"
  from assms have in_t: "125 \<in> set t" and m: "m = rev (dropWhile (\<lambda>c. c \<noteq> 125) (rev t))"
    by (auto simp add: re_search_braces_def Let_def t_def split: if_splits)
  have r: "r = takeWhile (\<lambda>c. c \<noteq> 123) r @ t" by (simp add: t_def)
  have na: "123 \<notin> set (takeWhile (\<lambda>c. c \<noteq> 123) r)" by (auto dest: set_takeWhileD)
  from in_t have ne: "t \<noteq> []" by auto
  then have "hd t = 123" unfolding t_def using hd_dropWhile [of "\<lambda>c. c \<noteq> 123" r] by simp
  with ne obtain t' where t': "t = 123 # t'" by (cases t) auto
  with in_t have in': "125 \<in> set t'" by simp
  from dropWhile_rev_last [OF in'] obtain u b where
    u: "t' = u @ [125] @ b" and nb: "125 \<notin> set b"
    and d: "rev (dropWhile (\<lambda>c. c \<noteq> 125) (rev t')) = u @ [125]" by blast
  have "dropWhile (\<lambda>c. c \<noteq> 125) (rev t' @ [123]) = dropWhile (\<lambda>c. c \<noteq> 125) (rev t') @ [123]"
    using in' by (intro dropWhile_append1 [of 125]) auto
  then have "rev (dropWhile (\<lambda>c. c \<noteq> 125) (rev t)) = 123 # rev (dropWhile (\<lambda>c. c \<noteq> 125) (rev t'))"
    by (simp add: t')
  with d m have m': "m = [123] @ u @ [125]" by simp
  have "r = takeWhile (\<lambda>c. c \<noteq> 123) r @ [123] @ u @ [125] @ b"
    using r t' u by simp
  with na nb m' show ?thesis unfolding greedy_span_def by blast
qed

lemma re_search_braces_greedy_span:
  assumes "greedy_span r m"
  shows "re_search_braces r = Some m"
proof -
  from assms obtain a mid b where r: "r = a @ [123] @ mid @ [125] @ b" and na: "123 \<notin> set a"
    and nb: "125 \<notin> set b" and m: "m = [123] @ mid @ [125]"
    unfolding greedy_span_def by blast
  have t: "dropWhile (\<lambda>c. c \<noteq> 123) r = 123 # mid @ 125 # b"
    using dropWhile_neq_first [OF na, of "mid @ 125 # b"] by (simp add: r)
  have "rev (123 # mid @ 125 # b) = rev b @ 125 # (rev mid @ [123])" by simp
  then have "dropWhile (\<lambda>c. c \<noteq> 125) (rev (123 # mid @ 125 # b)) = 125 # (rev mid @ [123])"
    using dropWhile_neq_first [of 125 "rev b" "rev mid @ [123]"] nb by (simp del: rev.simps rev_append)
  then have "rev (dropWhile (\<lambda>c. c \<noteq> 125) (rev (123 # mid @ 125 # b))) = m"
    by (simp only: m) simp
  moreover have "125 \<in> set (123 # mid @ 125 # b)" by simp
  ultimately show ?thesis
    unfolding re_search_braces_def Let_def t by (simp del: rev.simps rev_append set_simps set_append)
qed

subsection \<open>Search\<close>

text \<open>
  C7.  For every state, whatever the notes it holds, a search whose query is absent or the
  empty string answers the empty sequence and leaves the state as it is.  The answer
  depends neither on the table nor on the query the storage engine would run: the store is
  not consulted.
\<close>

theorem search_notes_empty_query:
  "search_notes run_query w None = (Response 200 (Json (PyList [])), w)
   \<and> search_notes run_query w (Some []) = (Response 200 (Json (PyList [])), w)"
  by (simp add: search_notes_def)

subsection \<open>Update without data\<close>

text \<open>
  C9.  For every existing note: an update whose JSON body is a false value (\<open>null\<close>, the
  empty object, and likewise zero, \<open>false\<close>, the empty string or list) answers 400 with
  the message "No data provided", and the state, the note included, is unchanged.  An
  update whose body is absent is not such a request: \<open>request.json\<close> raises, inside the
  \<open>try\<close>, and the answer is 500 with the text of that exception; the state is unchanged
  there too.
\<close>

theorem update_note_no_data:
  assumes "query_get w nid = Some row"
  shows "(\<not> truthy data \<longrightarrow>
            update_note p float_text w nid (Inr data) now
              = (Response 400 (error_json (py ''No data provided'')), w))
         \<and> update_note p float_text w nid (Inl e) now = (Response 500 (ErrorOf e), w)"
  using assms by (simp add: update_note_def update_note_try_def)

theorem update_note_no_data_witness:
  "\<forall>p float_text now.
      update_note p float_text example_world 1 (Inr PyNone) now
        = (Response 400 (error_json (py ''No data provided'')), example_world)
    \<and> update_note p float_text example_world 1 (Inr (PyDict [])) now
        = (Response 400 (error_json (py ''No data provided'')), example_world)
    \<and> update_note p float_text example_world 1 (Inl UnsupportedMediaType) now
        = (Response 500 (ErrorOf UnsupportedMediaType), example_world)"
  using update_note_no_data [OF example_query_get, of PyNone]
    update_note_no_data [OF example_query_get, of "PyDict []" _ _ _ UnsupportedMediaType]
  by simp

subsection \<open>Translation to a language that is not allowed\<close>

text \<open>
  C8.  For every existing note and every request whose \<open>language\<close> is not one of Chinese,
  English and Japanese: when the language is a string, a number, a boolean, null or
  missing, \<open>translate_note\<close> answers 400; when it is a list or an object, the membership
  test in the set of allowed languages cannot hash it and raises \<open>TypeError\<close>, outside the
  \<open>try\<close>, so the exception leaves the handler and the answer is not 400.  In both cases
  the state is unchanged, and no call to the completion service is recorded.
\<close>

theorem translate_note_unsupported:
  assumes "query_get w nid = Some row"
    and "py_get (py_or req_json (PyDict [])) (py ''language'') PyNone = Inr language"
    and "language \<notin> PyStr ` allowed"
  shows "translate_note service w nid req_json
           = (if (\<exists>xs. language = PyList xs) \<or> (\<exists>kv. language = PyDict kv)
              then (Unhandled TypeError, w)
              else (Response 400 unsupported_language, w))
         \<and> calls (snd (translate_note service w nid req_json)) = calls w"
  using assms by (cases language) (auto simp add: translate_note_def Let_def)

theorem translate_note_unsupported_witness:
  "\<forall>service.
     translate_note service example_world 1 (PyDict [(py ''language'', PyStr (py ''French''))])
       = (Response 400 unsupported_language, example_world)
     \<and> translate_note service example_world 1
          (PyDict [(py ''language'', PyList [PyStr (py ''French'')])])
       = (Unhandled TypeError, example_world)
     \<and> calls (snd (translate_note service example_world 1
                      (PyDict [(py ''language'', PyList [PyStr (py ''French'')])]))) = []"
proof -
  have g: "py_get (py_or (PyDict [(py ''language'', PyStr (py ''French''))]) (PyDict []))
             (py ''language'') PyNone = Inr (PyStr (py ''French''))"
    by (simp add: py_or_def py_def)
  have a: "PyStr (py ''French'') \<notin> PyStr ` allowed"
    by (simp add: allowed_def py_def image_iff)
  have g': "py_get (py_or (PyDict [(py ''language'', PyList [PyStr (py ''French'')])]) (PyDict []))
             (py ''language'') PyNone = Inr (PyList [PyStr (py ''French'')])"
    by (simp add: py_or_def py_def)
  have a': "PyList [PyStr (py ''French'')] \<notin> PyStr ` allowed"
    by (simp add: image_iff)
  show ?thesis
    using translate_note_unsupported [OF example_query_get g a]
      translate_note_unsupported [OF example_query_get g' a']
    by (simp add: example_world_def)
qed

text \<open>With an allowed language the service is called: the record of calls grows.\<close>

lemma translate_note_calls_service:
  assumes "query_get w nid = Some row"
    and "py_get (py_or req_json (PyDict [])) (py ''language'') PyNone = Inr (PyStr l)"
    and "l \<in> allowed"
  shows "length (calls w) < length (calls (snd (translate_note service w nid req_json)))"
  using assms
  by (auto simp add: translate_note_def translate_def call_llm_model_def Let_def
           split: prod.splits sum.splits)

subsection \<open>Creation\<close>








subsection \<open>Generation\<close>

lemma map_of_key: "map_of kv k = Some v \<Longrightarrow> k \<in> fst ` set kv"
  by (metis map_of_eq_None_iff option.distinct(1))

lemma generate_note_valid_request:
  assumes "map_of kv (py ''input'') = Some (PyStr s)" and "strip s \<noteq> []"
    and "(case map_of kv (py ''language'') of None \<Rightarrow> PyStr (py ''English'') | Some v \<Rightarrow> v) = PyStr l"
    and "l \<in> allowed"
    and "process_user_notes l (strip s) = Inr response_content"
  shows "generate_note process_user_notes w (PyDict kv) =
           (case generate_note_try (strip s) response_content of
              Inl e \<Rightarrow> (Response 500 (FailedToGenerate e), w)
            | Inr res \<Rightarrow> (res, w))"
proof -
  from assms(1) have "kv \<noteq> []" by auto
  then show ?thesis using assms
    by (simp add: generate_note_def py_or_def Let_def)
qed

text \<open>
  C1, as the code has it.  For every request object whose \<open>input\<close> is a string that is not
  empty once stripped of surrounding white space, and whose \<open>language\<close> is absent or one
  of the three allowed: when the completion client returns a text that parses as a JSON
  object with the keys \<open>Title\<close> and \<open>Notes\<close>, \<open>generate_note\<close> answers 200 with that
  title, that body as content, the value of \<open>Tags\<close> (the empty list when the key is
  absent) and the stripped input, and the state is unchanged: nothing is persisted.
\<close>

theorem generate_note_success:
  assumes "map_of kv (py ''input'') = Some (PyStr s)" and "strip s \<noteq> []"
    and "(case map_of kv (py ''language'') of None \<Rightarrow> PyStr (py ''English'') | Some v \<Rightarrow> v) = PyStr l"
    and "l \<in> allowed"
    and "process_user_notes l (strip s) = Inr (PyStr r)"
    and "json_loads r = Some (PyDict obj)"
    and "map_of obj (py ''Title'') = Some t" and "map_of obj (py ''Notes'') = Some c"
  shows "generate_note process_user_notes w (PyDict kv) =
           (Response 200
              (Json (PyDict [(py ''title'', t),
                             (py ''content'', c),
                             (py ''tags'', (case map_of obj (py ''Tags'') of None \<Rightarrow> PyList [] | Some g \<Rightarrow> g)),
                             (py ''original_input'', PyStr (strip s))])), w)"
  using assms(6-8) map_of_key [OF assms(7)] map_of_key [OF assms(8)]
  by (simp add: generate_note_valid_request [where process_user_notes = process_user_notes and l = l, OF assms(1-5)] generate_note_try_def
        parse_response_def)

lemma example_completion_loads:
  "json_loads example_completion
     = Some (PyDict [(py ''Title'', PyStr (py ''Meeting with Bob'')),
                     (py ''Notes'', PyStr (py ''...'')),
                     (py ''Tags'', PyList [PyStr (py ''work'')])])"
  by (simp add: example_completion_def json_eval)

lemma strip_example_input: "strip example_input = example_input"
  by (simp add: strip_def isspace_def py_def example_input_def)

theorem generate_note_success_witness:
  "generate_note (\<lambda>l i. Inr (PyStr example_completion)) example_world
       (PyDict [(py ''input'', PyStr example_input)])
     = (Response 200
          (Json (PyDict [(py ''title'', PyStr (py ''Meeting with Bob'')),
                         (py ''content'', PyStr (py ''...'')),
                         (py ''tags'', PyList [PyStr (py ''work'')]),
                         (py ''original_input'', PyStr example_input)])), example_world)"
proof -
  have i: "map_of [(py ''input'', PyStr example_input)] (py ''input'') = Some (PyStr example_input)"
    by simp
  have n: "strip example_input \<noteq> []"
    unfolding strip_example_input by (simp add: example_input_def py_def)
  have l: "(case map_of [(py ''input'', PyStr example_input)] (py ''language'') of
              None \<Rightarrow> PyStr (py ''English'') | Some v \<Rightarrow> v) = PyStr (py ''English'')"
    by (simp add: py_def)
  have a: "py ''English'' \<in> allowed" by (simp add: allowed_def)
  have t: "map_of [(py ''Title'', PyStr (py ''Meeting with Bob'')), (py ''Notes'', PyStr (py ''...'')),
                   (py ''Tags'', PyList [PyStr (py ''work'')])] (py ''Title'')
             = Some (PyStr (py ''Meeting with Bob''))"
    by simp
  have c: "map_of [(py ''Title'', PyStr (py ''Meeting with Bob'')), (py ''Notes'', PyStr (py ''...'')),
                   (py ''Tags'', PyList [PyStr (py ''work'')])] (py ''Notes'')
             = Some (PyStr (py ''...''))"
    by (simp add: py_def)
  have g: "map_of [(py ''Title'', PyStr (py ''Meeting with Bob'')), (py ''Notes'', PyStr (py ''...'')),
                   (py ''Tags'', PyList [PyStr (py ''work'')])] (py ''Tags'')
             = Some (PyList [PyStr (py ''work'')])"
    by (simp add: py_def)
  show ?thesis
    using generate_note_success
      [where process_user_notes = "\<lambda>l i. Inr (PyStr example_completion)" and l = "py ''English''"
         and w = example_world,
       OF i n l a refl example_completion_loads t c]
    by (simp only: g strip_example_input option.case)
qed

text \<open>
  C1 as stated fails for an input that is not empty and holds white space only: the
  stripped input is empty and the answer is 400, whatever the completion client would
  return.
\<close>

theorem generate_note_blank_input_counterexample:
  "generate_note (\<lambda>l i. Inr (PyStr example_completion)) example_world
       (PyDict [(py ''input'', PyStr (py '' ''))])
     = (Response 400 (error_json (py ''Input text is required'')), example_world)"
  by (simp add: generate_note_def py_or_def strip_def isspace_def py_def)

text \<open>What the body of the \<open>try\<close> answers, by the value that was parsed.\<close>

lemma generate_note_try_good:
  assumes "parse_response r = Inr (PyDict obj)"
    and "py ''Title'' \<in> fst ` set obj" and "py ''Notes'' \<in> fst ` set obj"
  shows "\<exists>b. generate_note_try ui (PyStr r) = Inr (Response 200 b)"
  using assms by (simp add: generate_note_try_def Let_def)

lemma generate_note_try_bad:
  assumes "\<not> (\<exists>obj. parse_response r = Inr (PyDict obj)
               \<and> py ''Title'' \<in> fst ` set obj \<and> py ''Notes'' \<in> fst ` set obj)"
  shows "(\<exists>e. generate_note_try ui (PyStr r) = Inl e)
         \<or> (\<exists>b. generate_note_try ui (PyStr r) = Inr (Response 500 b))"
proof (cases "parse_response r")
  case (Inl e)
  then show ?thesis by (simp add: generate_note_try_def)
next
  case (Inr v)
  then show ?thesis using assms
    by (cases v) (auto simp add: generate_note_try_def Let_def split: sum.splits)
qed

lemma parse_response_Inr:
  "(parse_response r = Inr v)
     = (json_loads r = Some v
        \<or> (json_loads r = None \<and> (\<exists>m. greedy_span r m \<and> json_loads m = Some v)))"
proof (cases "json_loads r")
  case (Some v')
  then show ?thesis by (auto simp add: parse_response_def)
next
  case None
  show ?thesis
  proof (cases "re_search_braces r")
    case None': None
    have "\<not> greedy_span r m" for m
      using None' re_search_braces_greedy_span [of r m] by auto
    then show ?thesis using None None' by (simp add: parse_response_def)
  next
    case (Some m)
    have "greedy_span r m' = (m' = m)" for m'
      using Some re_search_braces_greedy_span [of r m'] re_search_braces_Some [of r m] by auto
    then show ?thesis using None Some
      by (cases "json_loads m") (simp_all add: parse_response_def)
  qed
qed

text \<open>
  C3, as the code has it.  For every text \<open>r\<close> the completion client returns to a valid
  request: the whole of \<open>r\<close> is parsed first; when that fails, the span from the first
  \<open>{\<close> to the last \<open>}\<close> of \<open>r\<close> is parsed.  The answer is 200 when one of the two gives an
  object that has the keys \<open>Title\<close> and \<open>Notes\<close>, and 500 in every other case (both
  attempts fail, or the value is not an object with both keys).
\<close>

theorem generate_note_parsing:
  assumes "map_of kv (py ''input'') = Some (PyStr s)" and "strip s \<noteq> []"
    and "(case map_of kv (py ''language'') of None \<Rightarrow> PyStr (py ''English'') | Some v \<Rightarrow> v) = PyStr l"
    and "l \<in> allowed"
    and "process_user_notes l (strip s) = Inr (PyStr r)"
  shows "(if \<exists>obj. (json_loads r = Some (PyDict obj)
                    \<or> (json_loads r = None
                        \<and> (\<exists>m. greedy_span r m \<and> json_loads m = Some (PyDict obj))))
                   \<and> py ''Title'' \<in> fst ` set obj \<and> py ''Notes'' \<in> fst ` set obj
          then \<exists>b. generate_note process_user_notes w (PyDict kv) = (Response 200 b, w)
          else \<exists>b. generate_note process_user_notes w (PyDict kv) = (Response 500 b, w))"
proof -
  let ?good = "\<exists>obj. parse_response r = Inr (PyDict obj)
                 \<and> py ''Title'' \<in> fst ` set obj \<and> py ''Notes'' \<in> fst ` set obj"
  have req: "generate_note process_user_notes w (PyDict kv) = (case generate_note_try (strip s) (PyStr r) of Inl e \<Rightarrow> (Response 500 (FailedToGenerate e), w) | Inr res \<Rightarrow> (res, w))" by (rule generate_note_valid_request [where process_user_notes = process_user_notes and l = l, OF assms])
  show ?thesis
  proof (cases ?good)
    case True
    then obtain obj where "parse_response r = Inr (PyDict obj)"
      "py ''Title'' \<in> fst ` set obj" "py ''Notes'' \<in> fst ` set obj" by blast
    from generate_note_try_good [OF this, of "strip s"] True
    show ?thesis unfolding parse_response_Inr req by auto
  next
    case False
    from generate_note_try_bad [OF this, of "strip s"] False
    show ?thesis unfolding parse_response_Inr req by auto
  qed
qed

lemma two_objects_first_loads:
  "json_loads (py ''{\"Title\":\"a\",\"Notes\":\"b\"}'')
     = Some (PyDict [(py ''Title'', PyStr (py ''a'')), (py ''Notes'', PyStr (py ''b''))])"
  by (simp add: json_eval)

lemma prose_wrapped_loads: "json_loads prose_wrapped = None"
  by (simp add: prose_wrapped_def json_eval)

lemma prose_wrapped_search:
  "re_search_braces prose_wrapped = Some (py ''{\"Title\":\"a\",\"Notes\":\"b\"}'')"
  by (simp add: re_search_braces_def prose_wrapped_def py_def)

lemma strip_x: "strip (py ''x'') = py ''x''"
  by (simp add: strip_def isspace_def py_def)

theorem generate_note_parsing_witness:
  "\<exists>b. generate_note (\<lambda>l i. Inr (PyStr prose_wrapped)) example_world
          (PyDict [(py ''input'', PyStr (py ''x''))]) = (Response 200 b, example_world)"
proof -
  have n: "strip (py ''x'') \<noteq> []" unfolding strip_x by (simp add: py_def)
  have l: "(case map_of [(py ''input'', PyStr (py ''x''))] (py ''language'') of
              None \<Rightarrow> PyStr (py ''English'') | Some v \<Rightarrow> v) = PyStr (py ''English'')"
    by (simp add: py_def)
  have a: "py ''English'' \<in> allowed" by (simp add: allowed_def)
  have g: "greedy_span prose_wrapped (py ''{\"Title\":\"a\",\"Notes\":\"b\"}'')"
    using prose_wrapped_search by (rule re_search_braces_Some)
  have good: "\<exists>obj. (json_loads prose_wrapped = Some (PyDict obj)
                  \<or> (json_loads prose_wrapped = None
                      \<and> (\<exists>m. greedy_span prose_wrapped m \<and> json_loads m = Some (PyDict obj))))
                 \<and> py ''Title'' \<in> fst ` set obj \<and> py ''Notes'' \<in> fst ` set obj"
    using prose_wrapped_loads g two_objects_first_loads
    by (intro exI [of _ "[(py ''Title'', PyStr (py ''a'')), (py ''Notes'', PyStr (py ''b''))]"])
       auto
  show ?thesis
    using generate_note_parsing
      [where process_user_notes = "\<lambda>l i. Inr (PyStr prose_wrapped)" and l = "py ''English''"
         and w = example_world and kv = "[(py ''input'', PyStr (py ''x''))]" and s = "py ''x''"
         and r = prose_wrapped,
       OF _ n l a refl] good
    by simp
qed

text \<open>
  C3 as stated fails on the second attempt: it is not the first balanced object that is
  parsed.  For a completion with a second object after the note, the whole text does not
  parse, its first balanced object does and has both keys, and \<open>generate_note\<close> answers
  500, because the span up to the last \<open>}\<close> is what it parses.
\<close>

lemma two_objects_loads: "json_loads two_objects = None"
  by (simp add: two_objects_def json_eval)

lemma two_objects_balanced:
  "spec_first_balanced two_objects = Some (py ''{\"Title\":\"a\",\"Notes\":\"b\"}'')"
  by (simp add: two_objects_def py_def)

lemma two_objects_search: "re_search_braces two_objects = Some two_objects"
  by (simp add: re_search_braces_def two_objects_def py_def)

theorem generate_note_first_balanced_counterexample:
  "json_loads two_objects = None
   \<and> spec_first_balanced two_objects = Some (py ''{\"Title\":\"a\",\"Notes\":\"b\"}'')
   \<and> json_loads (py ''{\"Title\":\"a\",\"Notes\":\"b\"}'')
       = Some (PyDict [(py ''Title'', PyStr (py ''a'')), (py ''Notes'', PyStr (py ''b''))])
   \<and> generate_note (\<lambda>l i. Inr (PyStr two_objects)) example_world
         (PyDict [(py ''input'', PyStr (py ''x''))])
       = (Response 500 (FailedToGenerate JSONDecodeError), example_world)"
proof -
  have "generate_note (\<lambda>l i. Inr (PyStr two_objects)) example_world
          (PyDict [(py ''input'', PyStr (py ''x''))])
        = (Response 500 (FailedToGenerate JSONDecodeError), example_world)"
  proof -
    have t: "generate_note_try (strip (py ''x'')) (PyStr two_objects) = Inl JSONDecodeError"
      by (simp add: generate_note_try_def parse_response_def two_objects_loads two_objects_search)
    have n: "strip (py ''x'') \<noteq> []" unfolding strip_x by (simp add: py_def)
    have l: "(case map_of [(py ''input'', PyStr (py ''x''))] (py ''language'') of
                None \<Rightarrow> PyStr (py ''English'') | Some v \<Rightarrow> v) = PyStr (py ''English'')"
      by (simp add: py_def)
    have a: "py ''English'' \<in> allowed" by (simp add: allowed_def)
    show ?thesis
      using generate_note_valid_request
        [where process_user_notes = "\<lambda>l i. Inr (PyStr two_objects)" and l = "py ''English''"
           and w = example_world and kv = "[(py ''input'', PyStr (py ''x''))]" and s = "py ''x''",
         OF _ n l a refl]
      by (simp add: t)
  qed
  then show ?thesis
    using two_objects_loads two_objects_balanced two_objects_first_loads by simp
qed

subsection \<open>Update\<close>

text \<open>
  The handler on a body that is a non-empty object, for a note that exists: each of
  \<open>title\<close> and \<open>content\<close> is the value of the body or, without the key, the loaded one;
  \<open>tags\<close>, \<open>event_date\<close> and \<open>event_time\<close> are assigned only when their key is in the body.
  \<open>update_note_dict\<close> is the handler on such a body with the assigned attributes written
  out; \<open>update_note_200\<close> describes the row that a 200 leaves in the table, and
  \<open>update_note_200_iff\<close> says which bodies are answered 200.
\<close>

lemma in_keys_map_of: "(k \<in> fst ` set kv) = (map_of kv k \<noteq> None)"
  by (simp add: map_of_eq_None_iff)

lemma query_get_updated:
  assumes "query_get w nid = Some r" and "row_id row = nid"
  shows "query_get (w\<lparr>rows := map (\<lambda>m. if row_id m = nid then row else m) (rows w)\<rparr>) nid
           = Some row"
proof -
  have "find (\<lambda>m. row_id m = nid) xs = Some r \<Longrightarrow>
        find (\<lambda>m. row_id m = nid) (map (\<lambda>m. if row_id m = nid then row else m) xs) = Some row"
    for xs
    using assms(2) by (induction xs) (auto split: if_splits)
  then show ?thesis using assms(1) by (simp add: query_get_def)
qed

lemma query_get_id: "query_get w nid = Some r \<Longrightarrow> row_id r = nid"
  by (auto simp add: query_get_def find_Some_iff)

lemma update_note_try_dict:
  assumes "query_get w nid = Some row" and "kv \<noteq> []"
  shows "update_note_try p float_text w nid (Inr (PyDict kv)) now =
     (case (if py ''tags'' \<in> fst ` set kv
            then set_tags_list p
                   ((load row)\<lparr>title := (case map_of kv (py ''title'') of
                                            None \<Rightarrow> PyStr (row_title row) | Some v \<Rightarrow> v),
                      content := (case map_of kv (py ''content'') of
                                    None \<Rightarrow> PyStr (row_content row) | Some v \<Rightarrow> v)\<rparr>)
                   (case map_of kv (py ''tags'') of None \<Rightarrow> PyNone | Some v \<Rightarrow> v)
            else Inr ((load row)\<lparr>title := (case map_of kv (py ''title'') of
                                            None \<Rightarrow> PyStr (row_title row) | Some v \<Rightarrow> v),
                         content := (case map_of kv (py ''content'') of
                                    None \<Rightarrow> PyStr (row_content row) | Some v \<Rightarrow> v)\<rparr>)) of
        Inl e \<Rightarrow> Inl e
      | Inr n2 \<Rightarrow>
          (case commit_update float_text w row
                  (n2\<lparr>event_date := (case map_of kv (py ''event_date'') of
                                         None \<Rightarrow> event_date n2 | Some v \<Rightarrow> v),
                      event_time := (case map_of kv (py ''event_time'') of
                                         None \<Rightarrow> event_time n2 | Some v \<Rightarrow> v)\<rparr>) now of
             Inl e \<Rightarrow> Inl e
           | Inr (row', w') \<Rightarrow> Inr (Response 200 (Json (to_dict (load row'))), w')))"
proof -
  have t: "title (load row) = PyStr (row_title row)" "content (load row) = PyStr (row_content row)"
    by (simp_all add: load_def)
  show ?thesis
    using assms
    by (cases "py ''tags'' \<in> fst ` set kv"; cases "map_of kv (py ''event_date'')";
        cases "map_of kv (py ''event_time'')")
       (simp_all add: update_note_try_def Let_def in_keys_map_of t cong: option.case_cong split: sum.splits)
qed

lemma bind_attr_loaded: "bind_attr float_text (text_value x) x = Inr x"
  by (simp add: bind_attr_def)

lemma commit_update_Inr:
  assumes "commit_update float_text w old note now = Inr (row', w')"
  shows "(note = load old \<and> row' = old \<and> w' = w)
       \<or> (note \<noteq> load old
          \<and> (\<exists>t c ed et.
                bind_attr float_text (title note) (Some (row_title old)) = Inr (Some t)
              \<and> bind_attr float_text (content note) (Some (row_content old)) = Inr (Some c)
              \<and> bind_attr float_text (event_date note) (row_event_date old) = Inr ed
              \<and> bind_attr float_text (event_time note) (row_event_time old) = Inr et
              \<and> row' = old\<lparr>row_title := t, row_content := c, row_tags := tags note,
                            row_event_date := ed, row_event_time := et,
                            row_updated_at := Some now\<rparr>
              \<and> w' = w\<lparr>rows := map (\<lambda>r. if row_id r = row_id old then row' else r) (rows w)\<rparr>))"
proof (cases "note = load old")
  case True
  with assms show ?thesis by (simp add: commit_update_def)
next
  case False
  from assms False obtain t c ed et where
    b: "bind_attr float_text (title note) (Some (row_title old)) = Inr t"
       "bind_attr float_text (content note) (Some (row_content old)) = Inr c"
       "bind_attr float_text (event_date note) (row_event_date old) = Inr ed"
       "bind_attr float_text (event_time note) (row_event_time old) = Inr et"
    by (simp add: commit_update_def split: sum.splits)
  from assms False b obtain t' c' where tc: "t = Some t'" "c = Some c'"
    by (cases t; cases c) (simp_all add: commit_update_def)
  from assms False b tc show ?thesis
    by (auto simp add: commit_update_def Let_def)
qed

lemma commit_update_ok:
  assumes "bind_attr float_text (title note) (Some (row_title old)) = Inr (Some t)"
    and "bind_attr float_text (content note) (Some (row_content old)) = Inr (Some c)"
    and "bind_attr float_text (event_date note) (row_event_date old) = Inr ed"
    and "bind_attr float_text (event_time note) (row_event_time old) = Inr et"
  shows "\<exists>row' w'. commit_update float_text w old note now = Inr (row', w')"
  using assms by (simp add: commit_update_def Let_def)

lemma set_tags_list_Inr:
  assumes "set_tags_list p n v = Inr n'"
  shows "n' = n\<lparr>tags := tags n'\<rparr>
       \<and> (\<not> truthy v \<longrightarrow> tags n' = None)
       \<and> (truthy v \<longrightarrow> (\<exists>xs. py_iter v = Inr xs \<and> tags n' = Some (json_dumps (map (py_str p) xs))))"
  using assms by (auto simp add: set_tags_list_def split: if_splits sum.splits)

lemma set_tags_list_ok:
  assumes "truthy v \<longrightarrow> (\<exists>xs. py_iter v = Inr xs)"
  shows "\<exists>n'. set_tags_list p n v = Inr n'"
  using assms by (auto simp add: set_tags_list_def)

lemma set_tags_list_Inl:
  assumes "set_tags_list p n v = Inl e"
  shows "truthy v \<and> py_iter v = Inl e"
  using assms by (auto simp add: set_tags_list_def split: if_splits sum.splits)

lemma update_note_200:
  assumes q: "query_get w nid = Some row"
    and u: "update_note p float_text w nid (Inr (PyDict kv)) now = (Response 200 b, w')"
  shows "\<exists>row'. b = Json (to_dict (load row')) \<and> query_get w' nid = Some row'
     \<and> kv \<noteq> []
     \<and> bind_attr float_text (case map_of kv (py ''title'') of
                                None \<Rightarrow> PyStr (row_title row) | Some v \<Rightarrow> v)
          (Some (row_title row)) = Inr (Some (row_title row'))
     \<and> bind_attr float_text (case map_of kv (py ''content'') of
                                None \<Rightarrow> PyStr (row_content row) | Some v \<Rightarrow> v)
          (Some (row_content row)) = Inr (Some (row_content row'))
     \<and> bind_attr float_text (case map_of kv (py ''event_date'') of
                                None \<Rightarrow> text_value (row_event_date row) | Some v \<Rightarrow> v)
          (row_event_date row) = Inr (row_event_date row')
     \<and> bind_attr float_text (case map_of kv (py ''event_time'') of
                                None \<Rightarrow> text_value (row_event_time row) | Some v \<Rightarrow> v)
          (row_event_time row) = Inr (row_event_time row')
     \<and> (map_of kv (py ''tags'') = None \<longrightarrow> row_tags row' = row_tags row)
     \<and> (\<forall>v. map_of kv (py ''tags'') = Some v \<longrightarrow> \<not> truthy v \<longrightarrow> row_tags row' = None)
     \<and> (\<forall>v. map_of kv (py ''tags'') = Some v \<longrightarrow> truthy v \<longrightarrow>
            (\<exists>xs. py_iter v = Inr xs \<and> row_tags row' = Some (json_dumps (map (py_str p) xs))))
     \<and> row_id row' = row_id row \<and> row_created_at row' = row_created_at row
     \<and> (if (case map_of kv (py ''title'') of None \<Rightarrow> PyStr (row_title row) | Some v \<Rightarrow> v)
             = PyStr (row_title row)
           \<and> (case map_of kv (py ''content'') of None \<Rightarrow> PyStr (row_content row) | Some v \<Rightarrow> v)
             = PyStr (row_content row)
           \<and> (case map_of kv (py ''event_date'') of
                 None \<Rightarrow> text_value (row_event_date row) | Some v \<Rightarrow> v)
             = text_value (row_event_date row)
           \<and> (case map_of kv (py ''event_time'') of
                 None \<Rightarrow> text_value (row_event_time row) | Some v \<Rightarrow> v)
             = text_value (row_event_time row)
           \<and> row_tags row' = row_tags row
         then row' = row \<and> w' = w
         else row_updated_at row' = Some now
              \<and> w' = w\<lparr>rows := map (\<lambda>r. if row_id r = row_id row then row' else r) (rows w)\<rparr>)"
proof -
  define T where "T = (case map_of kv (py ''title'') of None \<Rightarrow> PyStr (row_title row) | Some v \<Rightarrow> v)"
  define C where "C = (case map_of kv (py ''content'') of None \<Rightarrow> PyStr (row_content row) | Some v \<Rightarrow> v)"
  define ED where "ED = (case map_of kv (py ''event_date'') of
                           None \<Rightarrow> text_value (row_event_date row) | Some v \<Rightarrow> v)"
  define ET where "ET = (case map_of kv (py ''event_time'') of
                           None \<Rightarrow> text_value (row_event_time row) | Some v \<Rightarrow> v)"
  from u have tr: "update_note_try p float_text w nid (Inr (PyDict kv)) now = Inr (Response 200 b, w')"
    by (auto simp add: update_note_def split: sum.splits)
  have ne: "kv \<noteq> []"
    using tr q by (auto simp add: update_note_try_def)
  define n1 where "n1 = (load row)\<lparr>title := T, content := C\<rparr>"
  define r2 where "r2 = (if py ''tags'' \<in> fst ` set kv
                         then set_tags_list p n1 (case map_of kv (py ''tags'') of None \<Rightarrow> PyNone | Some v \<Rightarrow> v)
                         else Inr n1)"
  note nf = update_note_try_dict [OF q ne, of p float_text now, folded T_def C_def,
      folded n1_def, folded r2_def]
  from tr obtain n2 where n2: "r2 = Inr n2"
    unfolding nf by (cases r2) simp_all
  define n4 where "n4 = n2\<lparr>event_date := (case map_of kv (py ''event_date'') of None \<Rightarrow> event_date n2 | Some v \<Rightarrow> v),
                           event_time := (case map_of kv (py ''event_time'') of None \<Rightarrow> event_time n2 | Some v \<Rightarrow> v)\<rparr>"
  have n2_eq: "n2 = n1\<lparr>tags := tags n2\<rparr>"
  proof (cases "py ''tags'' \<in> fst ` set kv")
    case True
    with n2 set_tags_list_Inr [of p n1 _ n2] show ?thesis by (simp add: r2_def)
  next
    case False
    with n2 show ?thesis by (simp add: r2_def)
  qed
  have n2_tags: "(map_of kv (py ''tags'') = None \<longrightarrow> tags n2 = row_tags row)
         \<and> (\<forall>v. map_of kv (py ''tags'') = Some v \<longrightarrow> \<not> truthy v \<longrightarrow> tags n2 = None)
         \<and> (\<forall>v. map_of kv (py ''tags'') = Some v \<longrightarrow> truthy v \<longrightarrow>
                (\<exists>xs. py_iter v = Inr xs \<and> tags n2 = Some (json_dumps (map (py_str p) xs))))"
  proof (cases "map_of kv (py ''tags'')")
    case None
    then have "py ''tags'' \<notin> fst ` set kv" by (simp add: in_keys_map_of)
    with n2 None show ?thesis by (auto simp add: r2_def n1_def load_def)
  next
    case (Some v)
    then have "py ''tags'' \<in> fst ` set kv" by (simp add: in_keys_map_of)
    with n2 Some have "set_tags_list p n1 v = Inr n2" by (simp add: r2_def)
    from set_tags_list_Inr [OF this] Some show ?thesis by simp
  qed
  have n4_eq: "n4 = (load row)\<lparr>title := T, content := C, tags := tags n2,
                              event_date := ED, event_time := ET\<rparr>"
    unfolding n4_def
    by (subst (1 2 3) n2_eq)
       (simp add: n1_def ED_def ET_def load_def split: option.splits)
  from tr obtain row' where c: "commit_update float_text w row n4 now = Inr (row', w')"
    and b: "b = Json (to_dict (load row'))"
    unfolding nf n2 n4_def by (auto split: sum.splits prod.splits)
  have same: "(n4 = load row) = (T = PyStr (row_title row) \<and> C = PyStr (row_content row)
                  \<and> ED = text_value (row_event_date row) \<and> ET = text_value (row_event_time row)
                  \<and> tags n2 = row_tags row)"
    unfolding n4_eq by (auto simp add: load_def)
  have f4: "title n4 = T" "content n4 = C" "event_date n4 = ED" "event_time n4 = ET"
           "tags n4 = tags n2"
    unfolding n4_eq by simp_all
  have id: "row_id row = nid" using q by (rule query_get_id)
  from commit_update_Inr [OF c]
  show ?thesis
  proof
    assume a: "n4 = load row \<and> row' = row \<and> w' = w"
    then have s: "T = PyStr (row_title row)" "C = PyStr (row_content row)"
        "ED = text_value (row_event_date row)" "ET = text_value (row_event_time row)"
        "tags n2 = row_tags row"
      using same by simp_all
    have tg: "(map_of kv (py ''tags'') = None \<longrightarrow> row_tags row = row_tags row)
         \<and> (\<forall>v. map_of kv (py ''tags'') = Some v \<longrightarrow> \<not> truthy v \<longrightarrow> row_tags row = None)
         \<and> (\<forall>v. map_of kv (py ''tags'') = Some v \<longrightarrow> truthy v \<longrightarrow>
                (\<exists>xs. py_iter v = Inr xs \<and> row_tags row = Some (json_dumps (map (py_str p) xs))))"
      using n2_tags unfolding s(5) by simp
    show ?thesis
      apply (rule exI [of _ row])
      unfolding T_def [symmetric] C_def [symmetric] ED_def [symmetric] ET_def [symmetric]
      using a b q ne tg s(1-4)
      by (simp add: bind_attr_def text_value_def)
  next
    assume a: "n4 \<noteq> load row
          \<and> (\<exists>t c ed et.
                bind_attr float_text (title n4) (Some (row_title row)) = Inr (Some t)
              \<and> bind_attr float_text (content n4) (Some (row_content row)) = Inr (Some c)
              \<and> bind_attr float_text (event_date n4) (row_event_date row) = Inr ed
              \<and> bind_attr float_text (event_time n4) (row_event_time row) = Inr et
              \<and> row' = row\<lparr>row_title := t, row_content := c, row_tags := tags n4,
                            row_event_date := ed, row_event_time := et,
                            row_updated_at := Some now\<rparr>
              \<and> w' = w\<lparr>rows := map (\<lambda>r. if row_id r = row_id row then row' else r) (rows w)\<rparr>)"
    then obtain t c ed et where
      bt: "bind_attr float_text T (Some (row_title row)) = Inr (Some t)"
      and bc: "bind_attr float_text C (Some (row_content row)) = Inr (Some c)"
      and bd: "bind_attr float_text ED (row_event_date row) = Inr ed"
      and be: "bind_attr float_text ET (row_event_time row) = Inr et"
      and r: "row' = row\<lparr>row_title := t, row_content := c, row_tags := tags n2,
                            row_event_date := ed, row_event_time := et,
                            row_updated_at := Some now\<rparr>"
      and w: "w' = w\<lparr>rows := map (\<lambda>r. if row_id r = row_id row then row' else r) (rows w)\<rparr>"
      unfolding f4 by blast
    have rf: "row_title row' = t" "row_content row' = c" "row_event_date row' = ed"
      "row_event_time row' = et" "row_tags row' = tags n2" "row_id row' = row_id row"
      "row_created_at row' = row_created_at row" "row_updated_at row' = Some now"
      unfolding r by simp_all
    have g: "query_get w' nid = Some row'"
      unfolding w id using query_get_updated [OF q, of row'] rf(6) id by simp
    have ns: "\<not> (T = PyStr (row_title row) \<and> C = PyStr (row_content row)
                  \<and> ED = text_value (row_event_date row) \<and> ET = text_value (row_event_time row)
                  \<and> row_tags row' = row_tags row)"
      using a same rf(5) by simp
    show ?thesis
      apply (rule exI [of _ row'])
      unfolding T_def [symmetric] C_def [symmetric] ED_def [symmetric] ET_def [symmetric]
      using b g ne bt bc bd be n2_tags ns w
      unfolding rf by auto
  qed
qed

lemma update_note_dict:
  assumes q: "query_get w nid = Some row" and ne: "kv \<noteq> []"
  shows "update_note p float_text w nid (Inr (PyDict kv)) now =
     (case (case map_of kv (py ''tags'') of
              None \<Rightarrow> Inr (row_tags row)
            | Some v \<Rightarrow>
                if \<not> truthy v then Inr None
                else (case py_iter v of
                        Inl e \<Rightarrow> Inl e
                      | Inr xs \<Rightarrow> Inr (Some (json_dumps (map (py_str p) xs))))) of
        Inl e \<Rightarrow> (Response 500 (ErrorOf e), w)
      | Inr g \<Rightarrow>
          (case commit_update float_text w row
                  \<lparr>note_id = row_id row,
                   title = (case map_of kv (py ''title'') of
                              None \<Rightarrow> PyStr (row_title row) | Some v \<Rightarrow> v),
                   content = (case map_of kv (py ''content'') of
                                None \<Rightarrow> PyStr (row_content row) | Some v \<Rightarrow> v),
                   tags = g,
                   event_date = (case map_of kv (py ''event_date'') of
                                   None \<Rightarrow> text_value (row_event_date row) | Some v \<Rightarrow> v),
                   event_time = (case map_of kv (py ''event_time'') of
                                   None \<Rightarrow> text_value (row_event_time row) | Some v \<Rightarrow> v),
                   created_at = row_created_at row, updated_at = row_updated_at row\<rparr> now of
             Inl e \<Rightarrow> (Response 500 (ErrorOf e), w)
           | Inr (row', w') \<Rightarrow> (Response 200 (Json (to_dict (load row'))), w')))"
proof (cases "map_of kv (py ''tags'')")
  case None
  then have "py ''tags'' \<notin> fst ` set kv" by (simp add: in_keys_map_of)
  with None show ?thesis
    unfolding update_note_def update_note_try_dict [OF q ne]
    by (cases "map_of kv (py ''event_date'')"; cases "map_of kv (py ''event_time'')")
       (simp_all add: load_def split: sum.splits prod.splits)
next
  case (Some v)
  then have "py ''tags'' \<in> fst ` set kv" by (simp add: in_keys_map_of)
  with Some show ?thesis
    unfolding update_note_def update_note_try_dict [OF q ne]
    by (cases "map_of kv (py ''event_date'')"; cases "map_of kv (py ''event_time'')";
        cases "truthy v"; cases "py_iter v")
       (simp_all add: load_def set_tags_list_def split: sum.splits prod.splits)
qed

lemma update_note_rollback:
  assumes q: "query_get w nid = Some row"
    and u: "update_note p float_text w nid (Inr (PyDict kv)) now = (r, w')"
  shows "(\<exists>b. r = Response 200 b) \<or> (w' = w \<and> (kv = [] \<or> (\<exists>e. r = Response 500 (ErrorOf e))))"
proof (cases "kv = []")
  case True
  with q u show ?thesis by (simp add: update_note_def update_note_try_def)
next
  case False
  show ?thesis
    using u unfolding update_note_dict [OF q False]
    by (auto split: sum.splits prod.splits)
qed

lemma update_note_succeeds:
  assumes q: "query_get w nid = Some row" and ne: "kv \<noteq> []"
    and tg: "\<forall>v. map_of kv (py ''tags'') = Some v \<longrightarrow> truthy v \<longrightarrow> (\<exists>xs. py_iter v = Inr xs)"
    and bt: "bind_attr float_text (case map_of kv (py ''title'') of
                                None \<Rightarrow> PyStr (row_title row) | Some v \<Rightarrow> v)
          (Some (row_title row)) = Inr (Some t)"
    and bc: "bind_attr float_text (case map_of kv (py ''content'') of
                                None \<Rightarrow> PyStr (row_content row) | Some v \<Rightarrow> v)
          (Some (row_content row)) = Inr (Some c)"
    and bd: "bind_attr float_text (case map_of kv (py ''event_date'') of
                                None \<Rightarrow> text_value (row_event_date row) | Some v \<Rightarrow> v)
          (row_event_date row) = Inr ed"
    and be: "bind_attr float_text (case map_of kv (py ''event_time'') of
                                None \<Rightarrow> text_value (row_event_time row) | Some v \<Rightarrow> v)
          (row_event_time row) = Inr et"
  shows "\<exists>b w'. update_note p float_text w nid (Inr (PyDict kv)) now = (Response 200 b, w')"
proof -
  have "\<exists>g. (case map_of kv (py ''tags'') of
              None \<Rightarrow> Inr (row_tags row)
            | Some v \<Rightarrow>
                if \<not> truthy v then Inr None
                else (case py_iter v of
                        Inl e \<Rightarrow> Inl e
                      | Inr xs \<Rightarrow> Inr (Some (json_dumps (map (py_str p) xs))))) = Inr g"
  proof (cases "map_of kv (py ''tags'')")
    case None
    then show ?thesis by simp
  next
    case (Some v)
    show ?thesis
    proof (cases "truthy v")
      case True
      with tg Some obtain xs where "py_iter v = Inr xs" by blast
      with True Some show ?thesis by simp
    next
      case False
      with Some show ?thesis by simp
    qed
  qed
  then obtain g where g: "(case map_of kv (py ''tags'') of
              None \<Rightarrow> Inr (row_tags row)
            | Some v \<Rightarrow>
                if \<not> truthy v then Inr None
                else (case py_iter v of
                        Inl e \<Rightarrow> Inl e
                      | Inr xs \<Rightarrow> Inr (Some (json_dumps (map (py_str p) xs))))) = Inr g"
    by blast
  define n where "n = \<lparr>note_id = row_id row,
                   title = (case map_of kv (py ''title'') of
                              None \<Rightarrow> PyStr (row_title row) | Some v \<Rightarrow> v),
                   content = (case map_of kv (py ''content'') of
                                None \<Rightarrow> PyStr (row_content row) | Some v \<Rightarrow> v),
                   tags = g,
                   event_date = (case map_of kv (py ''event_date'') of
                                   None \<Rightarrow> text_value (row_event_date row) | Some v \<Rightarrow> v),
                   event_time = (case map_of kv (py ''event_time'') of
                                   None \<Rightarrow> text_value (row_event_time row) | Some v \<Rightarrow> v),
                   created_at = row_created_at row, updated_at = row_updated_at row\<rparr>"
  have "\<exists>row' w'. commit_update float_text w row n now = Inr (row', w')"
    by (rule commit_update_ok [of _ _ _ t c ed et]) (simp_all add: n_def bt bc bd be)
  then obtain row' w' where c: "commit_update float_text w row n now = Inr (row', w')" by blast
  show ?thesis
    unfolding update_note_dict [OF q ne] g
    using c by (simp add: n_def)
qed

lemma update_note_unchanged:
  assumes q: "query_get w nid = Some row" and ne: "kv \<noteq> []"
    and "\<forall>v. map_of kv (py ''title'') = Some v \<longrightarrow> v = PyStr (row_title row)"
    and "\<forall>v. map_of kv (py ''content'') = Some v \<longrightarrow> v = PyStr (row_content row)"
    and "\<forall>v. map_of kv (py ''tags'') = Some v \<longrightarrow> set_tags_list p (load row) v = Inr (load row)"
    and "\<forall>v. map_of kv (py ''event_date'') = Some v \<longrightarrow> v = text_value (row_event_date row)"
    and "\<forall>v. map_of kv (py ''event_time'') = Some v \<longrightarrow> v = text_value (row_event_time row)"
  shows "update_note p float_text w nid (Inr (PyDict kv)) now
           = (Response 200 (Json (to_dict (load row))), w)"
proof -
  have t: "(case map_of kv (py ''title'') of None \<Rightarrow> PyStr (row_title row) | Some v \<Rightarrow> v)
             = PyStr (row_title row)"
    using assms(3) by (cases "map_of kv (py ''title'')") simp_all
  have c: "(case map_of kv (py ''content'') of None \<Rightarrow> PyStr (row_content row) | Some v \<Rightarrow> v)
             = PyStr (row_content row)"
    using assms(4) by (cases "map_of kv (py ''content'')") simp_all
  have d: "(case map_of kv (py ''event_date'') of
              None \<Rightarrow> text_value (row_event_date row) | Some v \<Rightarrow> v)
             = text_value (row_event_date row)"
    using assms(6) by (cases "map_of kv (py ''event_date'')") simp_all
  have e: "(case map_of kv (py ''event_time'') of
              None \<Rightarrow> text_value (row_event_time row) | Some v \<Rightarrow> v)
             = text_value (row_event_time row)"
    using assms(7) by (cases "map_of kv (py ''event_time'')") simp_all
  have g: "(case map_of kv (py ''tags'') of
              None \<Rightarrow> Inr (row_tags row)
            | Some v \<Rightarrow>
                if \<not> truthy v then Inr None
                else (case py_iter v of
                        Inl e \<Rightarrow> Inl e
                      | Inr xs \<Rightarrow> Inr (Some (json_dumps (map (py_str p) xs))))) = Inr (row_tags row)"
  proof (cases "map_of kv (py ''tags'')")
    case None
    then show ?thesis by simp
  next
    case (Some v)
    with assms(5) have s: "set_tags_list p (load row) v = Inr (load row)" by simp
    from set_tags_list_Inr [OF s] Some show ?thesis
      by (cases "truthy v") (auto simp add: load_def)
  qed
  show ?thesis
    unfolding update_note_dict [OF q ne] t c d e g
    by (simp add: commit_update_def load_def)
qed

lemma update_note_200_iff:
  assumes q: "query_get w nid = Some row"
    and u: "update_note p float_text w nid (Inr (PyDict kv)) now = (r, w')"
  shows "(\<exists>b. r = Response 200 b) =
     (kv \<noteq> []
      \<and> (\<forall>v. map_of kv (py ''tags'') = Some v \<longrightarrow> truthy v \<longrightarrow> (\<exists>xs. py_iter v = Inr xs))
      \<and> (\<exists>t. bind_attr float_text (case map_of kv (py ''title'') of
                                None \<Rightarrow> PyStr (row_title row) | Some v \<Rightarrow> v)
          (Some (row_title row)) = Inr (Some t))
      \<and> (\<exists>c. bind_attr float_text (case map_of kv (py ''content'') of
                                None \<Rightarrow> PyStr (row_content row) | Some v \<Rightarrow> v)
          (Some (row_content row)) = Inr (Some c))
      \<and> (\<exists>ed. bind_attr float_text (case map_of kv (py ''event_date'') of
                                None \<Rightarrow> text_value (row_event_date row) | Some v \<Rightarrow> v)
          (row_event_date row) = Inr ed)
      \<and> (\<exists>et. bind_attr float_text (case map_of kv (py ''event_time'') of
                                None \<Rightarrow> text_value (row_event_time row) | Some v \<Rightarrow> v)
          (row_event_time row) = Inr et))"
    (is "?l = ?r")
proof
  assume ?l
  then obtain b where b: "r = Response 200 b" by blast
  from update_note_200 [OF q u [unfolded b]] show ?r by blast
next
  assume a: ?r
  then obtain t c ed et where
    "kv \<noteq> []"
    "\<forall>v. map_of kv (py ''tags'') = Some v \<longrightarrow> truthy v \<longrightarrow> (\<exists>xs. py_iter v = Inr xs)"
    "bind_attr float_text (case map_of kv (py ''title'') of
                                None \<Rightarrow> PyStr (row_title row) | Some v \<Rightarrow> v)
          (Some (row_title row)) = Inr (Some t)"
    "bind_attr float_text (case map_of kv (py ''content'') of
                                None \<Rightarrow> PyStr (row_content row) | Some v \<Rightarrow> v)
          (Some (row_content row)) = Inr (Some c)"
    "bind_attr float_text (case map_of kv (py ''event_date'') of
                                None \<Rightarrow> text_value (row_event_date row) | Some v \<Rightarrow> v)
          (row_event_date row) = Inr ed"
    "bind_attr float_text (case map_of kv (py ''event_time'') of
                                None \<Rightarrow> text_value (row_event_time row) | Some v \<Rightarrow> v)
          (row_event_time row) = Inr et"
    by blast
  from update_note_succeeds [OF q this, of p now] u show ?l by simp
qed

lemma content_key_neq:
  "py ''title'' \<noteq> py ''content''" "py ''tags'' \<noteq> py ''content''"
  "py ''event_date'' \<noteq> py ''content''" "py ''event_time'' \<noteq> py ''content''"
  by (simp_all add: py_def)

lemma title_key_neq:
  "py ''content'' \<noteq> py ''title''" "py ''tags'' \<noteq> py ''title''"
  "py ''event_date'' \<noteq> py ''title''" "py ''event_time'' \<noteq> py ''title''"
  by (simp_all add: py_def)

lemma load_content_neq:
  "(\<lparr>note_id = row_id row, title = PyStr (row_title row), content = c, tags = row_tags row,
      event_date = text_value (row_event_date row), event_time = text_value (row_event_time row),
      created_at = row_created_at row, updated_at = row_updated_at row\<rparr> = load row)
   = (c = PyStr (row_content row))"
  by (auto simp add: load_def)

lemma update_note_content_only:
  assumes q: "query_get w nid = Some row"
  shows "update_note p float_text w nid (Inr (PyDict [(py ''content'', c)])) now =
     (if c = PyStr (row_content row) then (Response 200 (Json (to_dict (load row))), w)
      else (case bind_text float_text c of
              Inl e \<Rightarrow> (Response 500 (ErrorOf e), w)
            | Inr None \<Rightarrow> (Response 500 (ErrorOf IntegrityError), w)
            | Inr (Some s) \<Rightarrow>
                (Response 200
                   (Json (to_dict (load (row\<lparr>row_content := s, row_updated_at := Some now\<rparr>)))),
                 w\<lparr>rows := map (\<lambda>r. if row_id r = row_id row
                                      then row\<lparr>row_content := s, row_updated_at := Some now\<rparr>
                                      else r) (rows w)\<rparr>)))"
proof -
  have ne: "[(py ''content'', c)] \<noteq> []" by simp
  have bl: "bind_attr float_text (PyStr (row_title row)) (Some (row_title row))
              = Inr (Some (row_title row))"
    using bind_attr_loaded [of float_text "Some (row_title row)"] by (simp add: text_value_def)
  have bc: "c \<noteq> PyStr (row_content row) \<Longrightarrow>
            bind_attr float_text c (Some (row_content row)) = bind_text float_text c"
    by (simp add: bind_attr_def text_value_def)
  show ?thesis
  proof (cases "c = PyStr (row_content row)")
    case True
    then show ?thesis
      unfolding update_note_dict [OF q ne]
      by (simp add: content_key_neq commit_update_def load_content_neq)
  next
    case False
    then show ?thesis
      unfolding update_note_dict [OF q ne]
      by (cases "bind_text float_text c")
         (simp_all add: content_key_neq commit_update_def load_content_neq bl bc
            bind_attr_loaded Let_def split: option.splits)
  qed
qed

lemma bind_attr_absent:
  "bind_attr float_text (text_value x) x = Inr y \<Longrightarrow> y = x"
  by (simp add: bind_attr_def)

lemma update_note_retains:
  assumes q: "query_get w nid = Some row"
    and u: "update_note p float_text w nid (Inr (PyDict kv)) now = (r, w')"
  shows "\<exists>row'. query_get w' nid = Some row'
           \<and> (py ''title'' \<notin> fst ` set kv \<longrightarrow> row_title row' = row_title row)
           \<and> (py ''content'' \<notin> fst ` set kv \<longrightarrow> row_content row' = row_content row)
           \<and> (py ''tags'' \<notin> fst ` set kv \<longrightarrow> row_tags row' = row_tags row)
           \<and> (py ''event_date'' \<notin> fst ` set kv \<longrightarrow> row_event_date row' = row_event_date row)
           \<and> (py ''event_time'' \<notin> fst ` set kv \<longrightarrow> row_event_time row' = row_event_time row)
           \<and> (\<forall>b v. r = Response 200 b \<longrightarrow> map_of kv (py ''tags'') = Some v \<longrightarrow> \<not> truthy v
                  \<longrightarrow> row_tags row' = None)
           \<and> (\<forall>b. r = Response 200 b \<longrightarrow>
                  b = Json (to_dict (load row'))
                  \<and> (row' = row \<and> w' = w \<or> row_updated_at row' = Some now))
           \<and> ((\<forall>b. r \<noteq> Response 200 b) \<longrightarrow> row' = row \<and> w' = w)"
proof (cases "\<exists>b. r = Response 200 b")
  case True
  then obtain b where r: "r = Response 200 b" by blast
  from update_note_200 [OF q u [unfolded r]] obtain row' where h:
    "b = Json (to_dict (load row')) \<and> query_get w' nid = Some row'
     \<and> kv \<noteq> []
     \<and> bind_attr float_text (case map_of kv (py ''title'') of
                                None \<Rightarrow> PyStr (row_title row) | Some v \<Rightarrow> v)
          (Some (row_title row)) = Inr (Some (row_title row'))
     \<and> bind_attr float_text (case map_of kv (py ''content'') of
                                None \<Rightarrow> PyStr (row_content row) | Some v \<Rightarrow> v)
          (Some (row_content row)) = Inr (Some (row_content row'))
     \<and> bind_attr float_text (case map_of kv (py ''event_date'') of
                                None \<Rightarrow> text_value (row_event_date row) | Some v \<Rightarrow> v)
          (row_event_date row) = Inr (row_event_date row')
     \<and> bind_attr float_text (case map_of kv (py ''event_time'') of
                                None \<Rightarrow> text_value (row_event_time row) | Some v \<Rightarrow> v)
          (row_event_time row) = Inr (row_event_time row')
     \<and> (map_of kv (py ''tags'') = None \<longrightarrow> row_tags row' = row_tags row)
     \<and> (\<forall>v. map_of kv (py ''tags'') = Some v \<longrightarrow> \<not> truthy v \<longrightarrow> row_tags row' = None)
     \<and> (\<forall>v. map_of kv (py ''tags'') = Some v \<longrightarrow> truthy v \<longrightarrow>
            (\<exists>xs. py_iter v = Inr xs \<and> row_tags row' = Some (json_dumps (map (py_str p) xs))))
     \<and> row_id row' = row_id row \<and> row_created_at row' = row_created_at row
     \<and> (if (case map_of kv (py ''title'') of None \<Rightarrow> PyStr (row_title row) | Some v \<Rightarrow> v)
             = PyStr (row_title row)
           \<and> (case map_of kv (py ''content'') of None \<Rightarrow> PyStr (row_content row) | Some v \<Rightarrow> v)
             = PyStr (row_content row)
           \<and> (case map_of kv (py ''event_date'') of
                 None \<Rightarrow> text_value (row_event_date row) | Some v \<Rightarrow> v)
             = text_value (row_event_date row)
           \<and> (case map_of kv (py ''event_time'') of
                 None \<Rightarrow> text_value (row_event_time row) | Some v \<Rightarrow> v)
             = text_value (row_event_time row)
           \<and> row_tags row' = row_tags row
         then row' = row \<and> w' = w
         else row_updated_at row' = Some now
              \<and> w' = w\<lparr>rows := map (\<lambda>r. if row_id r = row_id row then row' else r) (rows w)\<rparr>)"
    by (rule exE)
  from h have b: "b = Json (to_dict (load row'))" and g: "query_get w' nid = Some row'"
    and bt: "bind_attr float_text (case map_of kv (py ''title'') of
                                None \<Rightarrow> PyStr (row_title row) | Some v \<Rightarrow> v)
          (Some (row_title row)) = Inr (Some (row_title row'))"
    and bc: "bind_attr float_text (case map_of kv (py ''content'') of
                                None \<Rightarrow> PyStr (row_content row) | Some v \<Rightarrow> v)
          (Some (row_content row)) = Inr (Some (row_content row'))"
    and bd: "bind_attr float_text (case map_of kv (py ''event_date'') of
                                None \<Rightarrow> text_value (row_event_date row) | Some v \<Rightarrow> v)
          (row_event_date row) = Inr (row_event_date row')"
    and be: "bind_attr float_text (case map_of kv (py ''event_time'') of
                                None \<Rightarrow> text_value (row_event_time row) | Some v \<Rightarrow> v)
          (row_event_time row) = Inr (row_event_time row')"
    and tn: "map_of kv (py ''tags'') = None \<longrightarrow> row_tags row' = row_tags row"
    and tf: "\<forall>v. map_of kv (py ''tags'') = Some v \<longrightarrow> \<not> truthy v \<longrightarrow> row_tags row' = None"
    by blast+
  from h have ch: "(row' = row \<and> w' = w) \<or> row_updated_at row' = Some now"
    by (cases "row' = row \<and> w' = w") (simp_all split: if_splits)
  have t: "py ''title'' \<notin> fst ` set kv \<longrightarrow> row_title row' = row_title row"
    using bt bind_attr_absent [of float_text "Some (row_title row)" "Some (row_title row')"]
    by (auto simp add: in_keys_map_of text_value_def)
  have c: "py ''content'' \<notin> fst ` set kv \<longrightarrow> row_content row' = row_content row"
    using bc bind_attr_absent [of float_text "Some (row_content row)" "Some (row_content row')"]
    by (auto simp add: in_keys_map_of text_value_def)
  have d: "py ''event_date'' \<notin> fst ` set kv \<longrightarrow> row_event_date row' = row_event_date row"
    using bd bind_attr_absent [of float_text "row_event_date row" "row_event_date row'"]
    by (auto simp add: in_keys_map_of)
  have e: "py ''event_time'' \<notin> fst ` set kv \<longrightarrow> row_event_time row' = row_event_time row"
    using be bind_attr_absent [of float_text "row_event_time row" "row_event_time row'"]
    by (auto simp add: in_keys_map_of)
  have tg: "py ''tags'' \<notin> fst ` set kv \<longrightarrow> row_tags row' = row_tags row"
    using tn by (simp add: in_keys_map_of)
  from g t c tg d e tf b ch show ?thesis
    unfolding r by (intro exI [of _ row']) simp
next
  case False
  with update_note_rollback [OF q u] have "w' = w" by blast
  with q False show ?thesis by (intro exI [of _ row]) simp
qed

text \<open>
  C4, as the code has it.  For every existing note and every update whose body is an
  object: the note is still there afterwards, and every field among \<open>title\<close>, \<open>content\<close>,
  \<open>tags\<close>, \<open>event_date\<close> and \<open>event_time\<close> whose key is absent from the body has the value
  it had; when the update answers 200 and the body has the \<open>tags\<close> key with a false value
  (null, the empty list, the empty string), the stored tags are cleared; an update that
  answers 200 has either written nothing or set \<open>updated_at\<close> to the time of the write, and
  an update that does not answer 200 has written nothing.  An update that assigns to
  every attribute the value it has writes nothing, so \<open>updated_at\<close> stays as it was.  When
  the body is \<open>content\<close> alone: with the stored content, nothing is written; with another
  value that the engine stores as a text (a string without surrogates, a number), the
  answer is 200 and the note is the old one with that text as its content and the time of
  the write as its \<open>updated_at\<close>; with null, or a value the engine refuses (a list, an
  object), the answer is 500 and nothing is written.
\<close>

theorem update_note_partial:
  assumes q: "query_get w nid = Some row"
    and u: "update_note p float_text w nid (Inr (PyDict kv)) now = (r, w')"
  shows "(\<exists>row'. query_get w' nid = Some row'
           \<and> (py ''title'' \<notin> fst ` set kv \<longrightarrow> row_title row' = row_title row)
           \<and> (py ''content'' \<notin> fst ` set kv \<longrightarrow> row_content row' = row_content row)
           \<and> (py ''tags'' \<notin> fst ` set kv \<longrightarrow> row_tags row' = row_tags row)
           \<and> (py ''event_date'' \<notin> fst ` set kv \<longrightarrow> row_event_date row' = row_event_date row)
           \<and> (py ''event_time'' \<notin> fst ` set kv \<longrightarrow> row_event_time row' = row_event_time row)
           \<and> (\<forall>b v. r = Response 200 b \<longrightarrow> map_of kv (py ''tags'') = Some v \<longrightarrow> \<not> truthy v
                  \<longrightarrow> row_tags row' = None)
           \<and> (\<forall>b. r = Response 200 b \<longrightarrow>
                  b = Json (to_dict (load row'))
                  \<and> (row' = row \<and> w' = w \<or> row_updated_at row' = Some now))
           \<and> ((\<forall>b. r \<noteq> Response 200 b) \<longrightarrow> row' = row \<and> w' = w))
       \<and> (kv \<noteq> []
            \<and> (\<forall>v. map_of kv (py ''title'') = Some v \<longrightarrow> v = PyStr (row_title row))
            \<and> (\<forall>v. map_of kv (py ''content'') = Some v \<longrightarrow> v = PyStr (row_content row))
            \<and> (\<forall>v. map_of kv (py ''tags'') = Some v \<longrightarrow>
                   set_tags_list p (load row) v = Inr (load row))
            \<and> (\<forall>v. map_of kv (py ''event_date'') = Some v \<longrightarrow>
                   v = text_value (row_event_date row))
            \<and> (\<forall>v. map_of kv (py ''event_time'') = Some v \<longrightarrow>
                   v = text_value (row_event_time row))
            \<longrightarrow> r = Response 200 (Json (to_dict (load row))) \<and> w' = w)
       \<and> (\<forall>c. kv = [(py ''content'', c)] \<longrightarrow>
            (r, w') =
              (if c = PyStr (row_content row)
               then (Response 200 (Json (to_dict (load row))), w)
               else (case bind_text float_text c of
                       Inl e \<Rightarrow> (Response 500 (ErrorOf e), w)
                     | Inr None \<Rightarrow> (Response 500 (ErrorOf IntegrityError), w)
                     | Inr (Some s) \<Rightarrow>
                         (Response 200
                            (Json (to_dict (load (row\<lparr>row_content := s,
                                                       row_updated_at := Some now\<rparr>)))),
                          w\<lparr>rows := map (\<lambda>r. if row_id r = row_id row
                                               then row\<lparr>row_content := s,
                                                        row_updated_at := Some now\<rparr>
                                               else r) (rows w)\<rparr>))))"
proof (intro conjI)
  show "\<exists>row'. query_get w' nid = Some row'
           \<and> (py ''title'' \<notin> fst ` set kv \<longrightarrow> row_title row' = row_title row)
           \<and> (py ''content'' \<notin> fst ` set kv \<longrightarrow> row_content row' = row_content row)
           \<and> (py ''tags'' \<notin> fst ` set kv \<longrightarrow> row_tags row' = row_tags row)
           \<and> (py ''event_date'' \<notin> fst ` set kv \<longrightarrow> row_event_date row' = row_event_date row)
           \<and> (py ''event_time'' \<notin> fst ` set kv \<longrightarrow> row_event_time row' = row_event_time row)
           \<and> (\<forall>b v. r = Response 200 b \<longrightarrow> map_of kv (py ''tags'') = Some v \<longrightarrow> \<not> truthy v
                  \<longrightarrow> row_tags row' = None)
           \<and> (\<forall>b. r = Response 200 b \<longrightarrow>
                  b = Json (to_dict (load row'))
                  \<and> (row' = row \<and> w' = w \<or> row_updated_at row' = Some now))
           \<and> ((\<forall>b. r \<noteq> Response 200 b) \<longrightarrow> row' = row \<and> w' = w)"
    by (rule update_note_retains [OF q u])
next
  show "kv \<noteq> []
            \<and> (\<forall>v. map_of kv (py ''title'') = Some v \<longrightarrow> v = PyStr (row_title row))
            \<and> (\<forall>v. map_of kv (py ''content'') = Some v \<longrightarrow> v = PyStr (row_content row))
            \<and> (\<forall>v. map_of kv (py ''tags'') = Some v \<longrightarrow>
                   set_tags_list p (load row) v = Inr (load row))
            \<and> (\<forall>v. map_of kv (py ''event_date'') = Some v \<longrightarrow>
                   v = text_value (row_event_date row))
            \<and> (\<forall>v. map_of kv (py ''event_time'') = Some v \<longrightarrow>
                   v = text_value (row_event_time row))
            \<longrightarrow> r = Response 200 (Json (to_dict (load row))) \<and> w' = w"
  proof
    assume a: "kv \<noteq> []
            \<and> (\<forall>v. map_of kv (py ''title'') = Some v \<longrightarrow> v = PyStr (row_title row))
            \<and> (\<forall>v. map_of kv (py ''content'') = Some v \<longrightarrow> v = PyStr (row_content row))
            \<and> (\<forall>v. map_of kv (py ''tags'') = Some v \<longrightarrow>
                   set_tags_list p (load row) v = Inr (load row))
            \<and> (\<forall>v. map_of kv (py ''event_date'') = Some v \<longrightarrow>
                   v = text_value (row_event_date row))
            \<and> (\<forall>v. map_of kv (py ''event_time'') = Some v \<longrightarrow>
                   v = text_value (row_event_time row))"
    have "update_note p float_text w nid (Inr (PyDict kv)) now
            = (Response 200 (Json (to_dict (load row))), w)"
      by (rule update_note_unchanged [OF q]) (use a in blast)+
    with u show "r = Response 200 (Json (to_dict (load row))) \<and> w' = w" by simp
  qed
next
  show "\<forall>c. kv = [(py ''content'', c)] \<longrightarrow>
            (r, w') =
              (if c = PyStr (row_content row)
               then (Response 200 (Json (to_dict (load row))), w)
               else (case bind_text float_text c of
                       Inl e \<Rightarrow> (Response 500 (ErrorOf e), w)
                     | Inr None \<Rightarrow> (Response 500 (ErrorOf IntegrityError), w)
                     | Inr (Some s) \<Rightarrow>
                         (Response 200
                            (Json (to_dict (load (row\<lparr>row_content := s,
                                                       row_updated_at := Some now\<rparr>)))),
                          w\<lparr>rows := map (\<lambda>r. if row_id r = row_id row
                                               then row\<lparr>row_content := s,
                                                        row_updated_at := Some now\<rparr>
                                               else r) (rows w)\<rparr>)))"
  proof (intro allI impI)
    fix c
    assume kv: "kv = [(py ''content'', c)]"
    from u show "(r, w') =
              (if c = PyStr (row_content row)
               then (Response 200 (Json (to_dict (load row))), w)
               else (case bind_text float_text c of
                       Inl e \<Rightarrow> (Response 500 (ErrorOf e), w)
                     | Inr None \<Rightarrow> (Response 500 (ErrorOf IntegrityError), w)
                     | Inr (Some s) \<Rightarrow>
                         (Response 200
                            (Json (to_dict (load (row\<lparr>row_content := s,
                                                       row_updated_at := Some now\<rparr>)))),
                          w\<lparr>rows := map (\<lambda>r. if row_id r = row_id row
                                               then row\<lparr>row_content := s,
                                                        row_updated_at := Some now\<rparr>
                                               else r) (rows w)\<rparr>)))"
      unfolding kv update_note_content_only [OF q] by (rule sym)
  qed
qed

theorem update_note_partial_witness:
  "\<forall>p float_text.
      update_note p float_text example_world 1
          (Inr (PyDict [(py ''content'', PyStr (py ''D''))])) later_time
        = (Response 200
             (Json (to_dict (load (example_note\<lparr>row_content := py ''D'',
                                                  row_updated_at := Some later_time\<rparr>)))),
           \<lparr>rows = [example_note\<lparr>row_content := py ''D'',
                                   row_updated_at := Some later_time\<rparr>],
            calls = []\<rparr>)"
proof (intro allI)
  fix p float_text
  obtain r w' where u:
    "update_note p float_text example_world 1
       (Inr (PyDict [(py ''content'', PyStr (py ''D''))])) later_time = (r, w')"
    by (cases "update_note p float_text example_world 1
                 (Inr (PyDict [(py ''content'', PyStr (py ''D''))])) later_time")
  have d: "PyStr (py ''D'') \<noteq> PyStr (row_content example_note)"
    by (simp add: example_note_def py_def)
  have b: "bind_text float_text (PyStr (py ''D'')) = Inr (Some (py ''D''))"
    by (simp add: py_def is_surrogate_def)
  have m: "example_world\<lparr>rows := map (\<lambda>r. if row_id r = row_id example_note
                                         then example_note\<lparr>row_content := py ''D'',
                                                row_updated_at := Some later_time\<rparr>
                                         else r) (rows example_world)\<rparr>
           = \<lparr>rows = [example_note\<lparr>row_content := py ''D'',
                                   row_updated_at := Some later_time\<rparr>], calls = []\<rparr>"
    by (simp add: example_world_def)
  from update_note_partial [OF example_query_get u] d b m
  show "update_note p float_text example_world 1
          (Inr (PyDict [(py ''content'', PyStr (py ''D''))])) later_time
        = (Response 200
             (Json (to_dict (load (example_note\<lparr>row_content := py ''D'',
                                                  row_updated_at := Some later_time\<rparr>)))),
           \<lparr>rows = [example_note\<lparr>row_content := py ''D'',
                                   row_updated_at := Some later_time\<rparr>],
            calls = []\<rparr>)"
    unfolding u by simp
qed

text \<open>
  C4 as stated fails.  \<open>updated_at\<close> is refreshed by \<open>onupdate\<close>, which is part of a
  write: an update whose only key is \<open>content\<close>, with the content the note already has,
  changes no attribute, so nothing is written and the note keeps its earlier
  \<open>updated_at\<close> although the clock has moved on.  An update whose only key is \<open>content\<close>
  does not overwrite the content when the value is null or a list: it is answered 500.
  And an update with a null \<open>tags\<close> does not clear the tags when it fails, here on a null
  title.
\<close>

theorem update_note_partial_counterexample:
  "(\<forall>p float_text.
      update_note p float_text example_world 1
          (Inr (PyDict [(py ''content'', PyStr (py ''C''))])) later_time
        = (Response 200 (Json (to_dict (load example_note))), example_world))
   \<and> query_get example_world 1 = Some example_note
   \<and> row_content example_note = py ''C''
   \<and> row_updated_at example_note = Some example_time
   \<and> later_time \<noteq> example_time
   \<and> (\<forall>p float_text.
         update_note p float_text example_world 1
             (Inr (PyDict [(py ''content'', PyNone)])) later_time
           = (Response 500 (ErrorOf IntegrityError), example_world))
   \<and> (\<forall>p float_text.
         update_note p float_text example_world 1
             (Inr (PyDict [(py ''content'', PyList [PyStr (py ''D'')])])) later_time
           = (Response 500 (ErrorOf DBAPIError), example_world))
   \<and> (\<forall>p float_text.
         update_note p float_text tagged_world 1
             (Inr (PyDict [(py ''tags'', PyList []), (py ''title'', PyNone)])) later_time
           = (Response 500 (ErrorOf IntegrityError), tagged_world))
   \<and> query_get tagged_world 1 = Some tagged_note
   \<and> row_tags tagged_note = Some (py ''[\"a\"]'')"
proof -
  have c: "row_content example_note = py ''C''" by (simp add: example_note_def)
  have 1: "update_note p float_text example_world 1
          (Inr (PyDict [(py ''content'', PyStr (py ''C''))])) later_time
        = (Response 200 (Json (to_dict (load example_note))), example_world)" for p float_text
    unfolding update_note_content_only [OF example_query_get] by (simp add: c)
  have 2: "update_note p float_text example_world 1
             (Inr (PyDict [(py ''content'', PyNone)])) later_time
           = (Response 500 (ErrorOf IntegrityError), example_world)" for p float_text
    unfolding update_note_content_only [OF example_query_get] by simp
  have 3: "update_note p float_text example_world 1
             (Inr (PyDict [(py ''content'', PyList [PyStr (py ''D'')])])) later_time
           = (Response 500 (ErrorOf DBAPIError), example_world)" for p float_text
    unfolding update_note_content_only [OF example_query_get] by simp
  have ne: "[(py ''tags'', PyList []), (py ''title'', PyNone)] \<noteq> []" by simp
  have k: "py ''tags'' \<noteq> py ''title''" "py ''title'' \<noteq> py ''tags''"
    "py ''content'' \<noteq> py ''tags''" "py ''event_date'' \<noteq> py ''tags''"
    "py ''event_time'' \<noteq> py ''tags''"
    by (simp_all add: py_def)
  have 4: "update_note p float_text tagged_world 1
             (Inr (PyDict [(py ''tags'', PyList []), (py ''title'', PyNone)])) later_time
           = (Response 500 (ErrorOf IntegrityError), tagged_world)" for p float_text
    unfolding update_note_dict [OF tagged_query_get ne]
    by (simp add: k title_key_neq commit_update_def load_def bind_attr_def text_value_def)
  have 5: "row_tags tagged_note = Some (py ''[\"a\"]'')" by (simp add: tagged_note_def)
  have 6: "row_updated_at example_note = Some example_time" by (simp add: example_note_def)
  have 7: "later_time \<noteq> example_time" by (simp add: later_time_def example_time_def)
  from 1 2 3 4 5 6 7 c example_query_get tagged_query_get show ?thesis by simp
qed

lemma bind_attr_empty: "bind_attr float_text (PyStr []) (Some s) = Inr (Some [])"
  by (auto simp add: bind_attr_def text_value_def)

lemma bind_attr_loaded_text:
  "bind_attr float_text (PyStr s) (Some s) = Inr (Some s)"
  by (simp add: bind_attr_def text_value_def)

text \<open>
  C10, as the code has it.  For every existing note and every update whose body is an
  object that gives \<open>title\<close> as the empty string: the update answers 200 exactly when the
  rest of the body is accepted (the tags, when given and true, can be iterated; the
  content, the event date and the event time, as assigned, can be stored, the content not
  as \<open>NULL\<close>), and then the note stored afterwards has the empty title; otherwise nothing is
  stored.  Likewise for \<open>content\<close>.  A body that has no \<open>tags\<close>, \<open>event_date\<close> or
  \<open>event_time\<close> and gives nothing but the empty string for \<open>title\<close> and \<open>content\<close> is always
  accepted.  Nothing on this path demands that the values are not empty.
\<close>

theorem update_note_stores_empty:
  assumes q: "query_get w nid = Some row"
    and u: "update_note p float_text w nid (Inr (PyDict kv)) now = (r, w')"
  shows "(map_of kv (py ''title'') = Some (PyStr []) \<longrightarrow>
            ((\<exists>b. r = Response 200 b) =
               ((\<forall>v. map_of kv (py ''tags'') = Some v \<longrightarrow> truthy v \<longrightarrow> (\<exists>xs. py_iter v = Inr xs))
                \<and> (\<exists>c. bind_attr float_text
                          (case map_of kv (py ''content'') of
                             None \<Rightarrow> PyStr (row_content row) | Some v \<Rightarrow> v)
                          (Some (row_content row)) = Inr (Some c))
                \<and> (\<exists>ed. bind_attr float_text
                           (case map_of kv (py ''event_date'') of
                              None \<Rightarrow> text_value (row_event_date row) | Some v \<Rightarrow> v)
                           (row_event_date row) = Inr ed)
                \<and> (\<exists>et. bind_attr float_text
                           (case map_of kv (py ''event_time'') of
                              None \<Rightarrow> text_value (row_event_time row) | Some v \<Rightarrow> v)
                           (row_event_time row) = Inr et)))
            \<and> ((\<exists>b. r = Response 200 b) \<longrightarrow>
                 (\<exists>row'. query_get w' nid = Some row' \<and> row_title row' = []
                          \<and> r = Response 200 (Json (to_dict (load row'))))))
       \<and> (map_of kv (py ''content'') = Some (PyStr []) \<longrightarrow>
            ((\<exists>b. r = Response 200 b) =
               ((\<forall>v. map_of kv (py ''tags'') = Some v \<longrightarrow> truthy v \<longrightarrow> (\<exists>xs. py_iter v = Inr xs))
                \<and> (\<exists>t. bind_attr float_text
                          (case map_of kv (py ''title'') of
                             None \<Rightarrow> PyStr (row_title row) | Some v \<Rightarrow> v)
                          (Some (row_title row)) = Inr (Some t))
                \<and> (\<exists>ed. bind_attr float_text
                           (case map_of kv (py ''event_date'') of
                              None \<Rightarrow> text_value (row_event_date row) | Some v \<Rightarrow> v)
                           (row_event_date row) = Inr ed)
                \<and> (\<exists>et. bind_attr float_text
                           (case map_of kv (py ''event_time'') of
                              None \<Rightarrow> text_value (row_event_time row) | Some v \<Rightarrow> v)
                           (row_event_time row) = Inr et)))
            \<and> ((\<exists>b. r = Response 200 b) \<longrightarrow>
                 (\<exists>row'. query_get w' nid = Some row' \<and> row_content row' = []
                          \<and> r = Response 200 (Json (to_dict (load row'))))))
       \<and> ((\<forall>b. r \<noteq> Response 200 b) \<longrightarrow> w' = w)
       \<and> (kv \<noteq> [] \<and> map_of kv (py ''tags'') = None \<and> map_of kv (py ''event_date'') = None
            \<and> map_of kv (py ''event_time'') = None
            \<and> (\<forall>v. map_of kv (py ''title'') = Some v \<longrightarrow> v = PyStr [])
            \<and> (\<forall>v. map_of kv (py ''content'') = Some v \<longrightarrow> v = PyStr [])
            \<longrightarrow> (\<exists>b. r = Response 200 b))"
proof (intro conjI impI)
  assume t: "map_of kv (py ''title'') = Some (PyStr [])"
  then have ne: "kv \<noteq> []" by auto
  show "(\<exists>b. r = Response 200 b) =
               ((\<forall>v. map_of kv (py ''tags'') = Some v \<longrightarrow> truthy v \<longrightarrow> (\<exists>xs. py_iter v = Inr xs))
                \<and> (\<exists>c. bind_attr float_text
                          (case map_of kv (py ''content'') of
                             None \<Rightarrow> PyStr (row_content row) | Some v \<Rightarrow> v)
                          (Some (row_content row)) = Inr (Some c))
                \<and> (\<exists>ed. bind_attr float_text
                           (case map_of kv (py ''event_date'') of
                              None \<Rightarrow> text_value (row_event_date row) | Some v \<Rightarrow> v)
                           (row_event_date row) = Inr ed)
                \<and> (\<exists>et. bind_attr float_text
                           (case map_of kv (py ''event_time'') of
                              None \<Rightarrow> text_value (row_event_time row) | Some v \<Rightarrow> v)
                           (row_event_time row) = Inr et))"
    unfolding update_note_200_iff [OF q u] using ne by (simp add: t bind_attr_empty)
next
  assume t: "map_of kv (py ''title'') = Some (PyStr [])"
    and "\<exists>b. r = Response 200 b"
  then obtain b where r: "r = Response 200 b" by blast
  from update_note_200 [OF q u [unfolded r]] obtain row' where
    "b = Json (to_dict (load row'))" "query_get w' nid = Some row'"
    "bind_attr float_text (case map_of kv (py ''title'') of
                                None \<Rightarrow> PyStr (row_title row) | Some v \<Rightarrow> v)
          (Some (row_title row)) = Inr (Some (row_title row'))"
    by blast
  then show "\<exists>row'. query_get w' nid = Some row' \<and> row_title row' = []
                          \<and> r = Response 200 (Json (to_dict (load row')))"
    unfolding r by (intro exI [of _ row']) (simp add: t bind_attr_empty)
next
  assume c: "map_of kv (py ''content'') = Some (PyStr [])"
  then have ne: "kv \<noteq> []" by auto
  show "(\<exists>b. r = Response 200 b) =
               ((\<forall>v. map_of kv (py ''tags'') = Some v \<longrightarrow> truthy v \<longrightarrow> (\<exists>xs. py_iter v = Inr xs))
                \<and> (\<exists>t. bind_attr float_text
                          (case map_of kv (py ''title'') of
                             None \<Rightarrow> PyStr (row_title row) | Some v \<Rightarrow> v)
                          (Some (row_title row)) = Inr (Some t))
                \<and> (\<exists>ed. bind_attr float_text
                           (case map_of kv (py ''event_date'') of
                              None \<Rightarrow> text_value (row_event_date row) | Some v \<Rightarrow> v)
                           (row_event_date row) = Inr ed)
                \<and> (\<exists>et. bind_attr float_text
                           (case map_of kv (py ''event_time'') of
                              None \<Rightarrow> text_value (row_event_time row) | Some v \<Rightarrow> v)
                           (row_event_time row) = Inr et))"
    unfolding update_note_200_iff [OF q u] using ne by (simp add: c bind_attr_empty)
next
  assume c: "map_of kv (py ''content'') = Some (PyStr [])"
    and "\<exists>b. r = Response 200 b"
  then obtain b where r: "r = Response 200 b" by blast
  from update_note_200 [OF q u [unfolded r]] obtain row' where
    "b = Json (to_dict (load row'))" "query_get w' nid = Some row'"
    "bind_attr float_text (case map_of kv (py ''content'') of
                                None \<Rightarrow> PyStr (row_content row) | Some v \<Rightarrow> v)
          (Some (row_content row)) = Inr (Some (row_content row'))"
    by blast
  then show "\<exists>row'. query_get w' nid = Some row' \<and> row_content row' = []
                          \<and> r = Response 200 (Json (to_dict (load row')))"
    unfolding r by (intro exI [of _ row']) (simp add: c bind_attr_empty)
next
  assume "\<forall>b. r \<noteq> Response 200 b"
  with update_note_rollback [OF q u] show "w' = w" by blast
next
  assume a: "kv \<noteq> [] \<and> map_of kv (py ''tags'') = None \<and> map_of kv (py ''event_date'') = None
            \<and> map_of kv (py ''event_time'') = None
            \<and> (\<forall>v. map_of kv (py ''title'') = Some v \<longrightarrow> v = PyStr [])
            \<and> (\<forall>v. map_of kv (py ''content'') = Some v \<longrightarrow> v = PyStr [])"
  have t: "\<exists>t. bind_attr float_text (case map_of kv (py ''title'') of
                             None \<Rightarrow> PyStr (row_title row) | Some v \<Rightarrow> v)
                          (Some (row_title row)) = Inr (Some t)"
    using a by (cases "map_of kv (py ''title'')") (simp_all add: bind_attr_empty bind_attr_loaded_text)
  have c: "\<exists>c. bind_attr float_text (case map_of kv (py ''content'') of
                             None \<Rightarrow> PyStr (row_content row) | Some v \<Rightarrow> v)
                          (Some (row_content row)) = Inr (Some c)"
    using a by (cases "map_of kv (py ''content'')") (simp_all add: bind_attr_empty bind_attr_loaded_text)
  show "\<exists>b. r = Response 200 b"
    unfolding update_note_200_iff [OF q u] using a t c by (simp add: bind_attr_loaded)
qed

theorem update_note_stores_empty_witness:
  "\<forall>p float_text.
      update_note p float_text example_world 1 (Inr (PyDict [(py ''title'', PyStr [])])) later_time
        = (Response 200
             (Json (to_dict (load (example_note\<lparr>row_title := [],
                                                  row_updated_at := Some later_time\<rparr>)))),
           \<lparr>rows = [example_note\<lparr>row_title := [], row_updated_at := Some later_time\<rparr>],
            calls = []\<rparr>)
    \<and> (\<exists>row'. query_get (snd (update_note p float_text example_world 1
                                   (Inr (PyDict [(py ''title'', PyStr [])])) later_time)) 1
                  = Some row'
               \<and> row_title row' = [])"
proof (intro allI)
  fix p float_text
  have ne: "[(py ''title'', PyStr [])] \<noteq> []" by simp
  have neq: "\<lparr>note_id = row_id example_note, title = PyStr [],
              content = PyStr (row_content example_note), tags = row_tags example_note,
              event_date = text_value (row_event_date example_note),
              event_time = text_value (row_event_time example_note),
              created_at = row_created_at example_note,
              updated_at = row_updated_at example_note\<rparr> \<noteq> load example_note"
    by (simp add: load_def example_note_def py_def)
  have u: "update_note p float_text example_world 1 (Inr (PyDict [(py ''title'', PyStr [])]))
             later_time
        = (Response 200
             (Json (to_dict (load (example_note\<lparr>row_title := [],
                                                  row_updated_at := Some later_time\<rparr>)))),
           \<lparr>rows = [example_note\<lparr>row_title := [], row_updated_at := Some later_time\<rparr>],
            calls = []\<rparr>)"
    unfolding update_note_dict [OF example_query_get ne]
    using neq
    by (simp add: title_key_neq commit_update_def bind_attr_empty bind_attr_loaded_text
          bind_attr_loaded Let_def)
       (simp add: example_world_def)
  have m: "map_of [(py ''title'', PyStr [])] (py ''title'') = Some (PyStr [])" by simp
  have ok: "\<exists>b. Response 200
             (Json (to_dict (load (example_note\<lparr>row_title := [],
                                                  row_updated_at := Some later_time\<rparr>))))
           = Response 200 b" by simp
  from update_note_stores_empty [OF example_query_get u] m ok
  have "\<exists>row'. query_get \<lparr>rows = [example_note\<lparr>row_title := [],
                                                   row_updated_at := Some later_time\<rparr>],
                              calls = []\<rparr> 1 = Some row'
               \<and> row_title row' = []"
    by blast
  with u
  show "update_note p float_text example_world 1 (Inr (PyDict [(py ''title'', PyStr [])])) later_time
        = (Response 200
             (Json (to_dict (load (example_note\<lparr>row_title := [],
                                                  row_updated_at := Some later_time\<rparr>)))),
           \<lparr>rows = [example_note\<lparr>row_title := [], row_updated_at := Some later_time\<rparr>],
            calls = []\<rparr>)
    \<and> (\<exists>row'. query_get (snd (update_note p float_text example_world 1
                                   (Inr (PyDict [(py ''title'', PyStr [])])) later_time)) 1
                  = Some row'
               \<and> row_title row' = [])"
    by simp
qed

text \<open>
  C10 as stated fails: an update that gives the empty string for the title and null for
  the content is answered 500, and the title of the stored note is what it was.
\<close>

theorem update_note_stores_empty_counterexample:
  "(\<forall>p float_text.
      update_note p float_text example_world 1
          (Inr (PyDict [(py ''title'', PyStr []), (py ''content'', PyNone)])) later_time
        = (Response 500 (ErrorOf IntegrityError), example_world))
   \<and> query_get example_world 1 = Some example_note
   \<and> row_title example_note = py ''T''"
proof -
  have ne: "[(py ''title'', PyStr []), (py ''content'', PyNone)] \<noteq> []" by simp
  have "update_note p float_text example_world 1
          (Inr (PyDict [(py ''title'', PyStr []), (py ''content'', PyNone)])) later_time
        = (Response 500 (ErrorOf IntegrityError), example_world)" for p float_text
    unfolding update_note_dict [OF example_query_get ne]
    by (simp add: title_key_neq content_key_neq commit_update_def load_def bind_attr_def
          text_value_def)
  moreover have "row_title example_note = py ''T''" by (simp add: example_note_def)
  ultimately show ?thesis using example_query_get by simp
qed

subsection \<open>Decoding the stored tags\<close>

text \<open>
  \<open>split\<close> cuts at every comma and at nothing else: joining the segments with commas
  gives the text back, and no segment holds a comma.  \<open>strip\<close> leaves no white space at
  either end.
\<close>

lemma split_no_sep: "x \<in> set (split sep s) \<Longrightarrow> sep \<notin> set x"
proof (induction s arbitrary: x)
  case Nil
  then show ?case by simp
next
  case (Cons c s)
  then show ?case
    by (cases "split sep s") (auto split: if_splits)
qed

lemma split_not_Nil: "split sep s \<noteq> []"
  by (induction s) (auto split: list.splits)

lemma join_split: "join [sep] (split sep s) = s"
proof (induction s)
  case Nil
  then show ?case by simp
next
  case (Cons c s)
  obtain x xs where x: "split sep s = x # xs"
    using split_not_Nil [of sep s] by (cases "split sep s") auto
  with Cons show ?case by (cases xs) auto
qed

lemma set_strip: "set (strip s) \<subseteq> set s"
proof
  fix x
  assume "x \<in> set (strip s)"
  then have "x \<in> set (dropWhile isspace (rev (dropWhile isspace s)))"
    by (simp add: strip_def)
  then have "x \<in> set (rev (dropWhile isspace s))" by (rule set_dropWhileD)
  then have "x \<in> set (dropWhile isspace s)" by simp
  then show "x \<in> set s" by (rule set_dropWhileD)
qed

lemma strip_ends:
  assumes "strip s \<noteq> []"
  shows "\<not> isspace (hd (strip s)) \<and> \<not> isspace (last (strip s))"
proof -
  define d where "d = dropWhile isspace s"
  define e where "e = dropWhile isspace (rev d)"
  have s: "strip s = rev e" by (simp add: strip_def d_def e_def)
  with assms have ne: "e \<noteq> []" by simp
  then have 1: "\<not> isspace (hd e)" unfolding e_def by (rule hd_dropWhile)
  from ne have dne: "d \<noteq> []" unfolding e_def by auto
  then have 2: "\<not> isspace (hd d)" unfolding d_def by (rule hd_dropWhile)
  obtain a where a: "rev d = a @ e"
    unfolding e_def by (metis takeWhile_dropWhile_id)
  with ne have "last (rev d) = last e" by simp
  then have 3: "last e = hd d" using dne by (simp add: last_rev)
  show ?thesis
    unfolding s using ne 1 2 3 by (simp add: hd_rev last_rev)
qed

lemma get_tags_list_absent:
  "tags self = None \<or> tags self = Some [] \<Longrightarrow> get_tags_list self = PyList []"
  by (cases "tags self") (simp_all add: get_tags_list_def)

lemma get_tags_list_json:
  "tags self = Some t \<Longrightarrow> t \<noteq> [] \<Longrightarrow> json_loads t = Some v \<Longrightarrow> get_tags_list self = v"
  by (simp add: get_tags_list_def)

lemma get_tags_list_fallback:
  "tags self = Some t \<Longrightarrow> t \<noteq> [] \<Longrightarrow> json_loads t = None \<Longrightarrow>
   get_tags_list self = PyList (map PyStr (filter (\<lambda>x. x \<noteq> []) (map strip (split 44 t))))"
  by (simp add: get_tags_list_def)

lemma fallback_segments:
  assumes "x \<in> set (filter (\<lambda>x. x \<noteq> []) (map strip (split 44 t)))"
  shows "x \<noteq> [] \<and> 44 \<notin> set x \<and> \<not> isspace (hd x) \<and> \<not> isspace (last x)"
proof -
  from assms obtain y where y: "y \<in> set (split 44 t)" "x = strip y" "x \<noteq> []" by auto
  from split_no_sep [OF y(1)] set_strip [of y] y(2) have "44 \<notin> set x" by auto
  with strip_ends [of y] y show ?thesis by simp
qed

text \<open>
  C6, as the code has it.  \<open>get_tags_list\<close> returns a value for every stored text, and
  raises nothing.  Without tags (\<open>None\<close> or the empty text) it returns the empty list.  A
  text that is valid JSON is returned as the value it parses to, whatever that value is.
  A text that is not valid JSON is split at its commas, the segments are stripped of white
  space and the empty ones dropped: the result is a list of strings, none of them empty,
  none with a comma, none with white space at either end.
\<close>

theorem get_tags_list_decode:
  "(tags self = None \<or> tags self = Some [] \<longrightarrow> get_tags_list self = PyList [])
   \<and> (\<forall>t. tags self = Some t \<longrightarrow> t \<noteq> [] \<longrightarrow>
          (case json_loads t of
             Some v \<Rightarrow> get_tags_list self = v
           | None \<Rightarrow>
               (\<exists>xs. get_tags_list self = PyList (map PyStr xs)
                     \<and> xs = filter (\<lambda>x. x \<noteq> []) (map strip (split 44 t))
                     \<and> join [44] (split 44 t) = t
                     \<and> (\<forall>x\<in>set xs. x \<noteq> [] \<and> 44 \<notin> set x
                                      \<and> \<not> isspace (hd x) \<and> \<not> isspace (last x)))))"
proof (intro conjI allI impI)
  assume "tags self = None \<or> tags self = Some []"
  then show "get_tags_list self = PyList []" by (rule get_tags_list_absent)
next
  fix t
  assume t: "tags self = Some t" "t \<noteq> []"
  show "case json_loads t of
          Some v \<Rightarrow> get_tags_list self = v
        | None \<Rightarrow>
            (\<exists>xs. get_tags_list self = PyList (map PyStr xs)
                  \<and> xs = filter (\<lambda>x. x \<noteq> []) (map strip (split 44 t))
                  \<and> join [44] (split 44 t) = t
                  \<and> (\<forall>x\<in>set xs. x \<noteq> [] \<and> 44 \<notin> set x
                                   \<and> \<not> isspace (hd x) \<and> \<not> isspace (last x)))"
  proof (cases "json_loads t")
    case (Some v)
    from get_tags_list_json [OF t Some] show ?thesis unfolding Some by simp
  next
    case None
    have "\<exists>xs. get_tags_list self = PyList (map PyStr xs)
                  \<and> xs = filter (\<lambda>x. x \<noteq> []) (map strip (split 44 t))
                  \<and> join [44] (split 44 t) = t
                  \<and> (\<forall>x\<in>set xs. x \<noteq> [] \<and> 44 \<notin> set x
                                   \<and> \<not> isspace (hd x) \<and> \<not> isspace (last x))"
    proof (intro exI conjI ballI)
      show "get_tags_list self
              = PyList (map PyStr (filter (\<lambda>x. x \<noteq> []) (map strip (split 44 t))))"
        by (rule get_tags_list_fallback [OF t None])
      show "filter (\<lambda>x. x \<noteq> []) (map strip (split 44 t))
              = filter (\<lambda>x. x \<noteq> []) (map strip (split 44 t))" ..
      show "join [44] (split 44 t) = t" by (rule join_split)
    next
      fix x assume "x \<in> set (filter (\<lambda>x. x \<noteq> []) (map strip (split 44 t)))"
      from fallback_segments [OF this]
      show "x \<noteq> []" "44 \<notin> set x" "\<not> isspace (hd x)" "\<not> isspace (last x)" by blast+
    qed
    then show ?thesis unfolding None by simp
  qed
qed

lemma loose_tags_loads: "json_loads (py ''a, b ,c'') = None"
  by (simp add: json_eval)

lemma number_tags_loads: "json_loads (py ''2024'') = Some (PyInt 2024)"
  by (simp add: json_eval)

lemma loose_tags_segments:
  "filter (\<lambda>x. x \<noteq> []) (map strip (split 44 (py ''a, b ,c''))) = [py ''a'', py ''b'', py ''c'']"
  by (simp add: py_def strip_def isspace_def)

theorem get_tags_list_decode_witness:
  "get_tags_list ((load example_note)\<lparr>tags := Some (py ''a, b ,c'')\<rparr>)
     = PyList [PyStr (py ''a''), PyStr (py ''b''), PyStr (py ''c'')]"
proof -
  have t: "tags ((load example_note)\<lparr>tags := Some (py ''a, b ,c'')\<rparr>) = Some (py ''a, b ,c'')"
    "py ''a, b ,c'' \<noteq> []"
    by (simp_all add: py_def)
  from get_tags_list_decode [of "(load example_note)\<lparr>tags := Some (py ''a, b ,c'')\<rparr>",
      THEN conjunct2, rule_format, OF t]
  have "\<exists>xs. get_tags_list ((load example_note)\<lparr>tags := Some (py ''a, b ,c'')\<rparr>)
                = PyList (map PyStr xs)
              \<and> xs = [py ''a'', py ''b'', py ''c'']"
    unfolding loose_tags_loads loose_tags_segments by auto
  then show ?thesis by simp
qed

text \<open>
  C6 as stated fails: a stored text that is valid JSON and not a list of strings is
  returned as it parses.  For the stored text \<open>2024\<close> the result is the number 2024, not a
  sequence of strings.
\<close>

theorem get_tags_list_number_counterexample:
  "get_tags_list ((load example_note)\<lparr>tags := Some (py ''2024'')\<rparr>) = PyInt 2024"
proof -
  have "py ''2024'' \<noteq> []" by (simp add: py_def)
  then show ?thesis
    using get_tags_list_json [of "(load example_note)\<lparr>tags := Some (py ''2024'')\<rparr>",
        OF _ _ number_tags_loads]
    by simp
qed

end
